theory Spec2Isabelle
  imports Complex_Main "HOL-Library.Log_Nat"
begin

section \<open>Floating point\<close>

text \<open>
  Rounding of a real number to the nearest double (53 significant bits, ties to the
  even significand). The exponent is not bounded: overflow, subnormal numbers and NaN
  are left out. \<open>float_exponent x\<close> is the integer \<open>e\<close> with
  \<open>pow2 e \<le> \<bar>x\<bar> < pow2 (e + 1)\<close>, where \<open>pow2 e\<close> is the power of two with exponent \<open>e\<close>,
  and the unit in the last place of \<open>x\<close> is \<open>pow2 (e - 52)\<close>.
\<close>

definition round_half_even :: "real \<Rightarrow> int" where
  "round_half_even y =
     (let f = \<lfloor>y\<rfloor>; d = y - of_int f
      in if d < 1 / 2 then f
         else if 1 / 2 < d then f + 1
         else if even f then f else f + 1)"

definition float_exponent :: "real \<Rightarrow> int" where
  "float_exponent x =
     (if 1 \<le> \<bar>x\<bar> then bitlen \<lfloor>\<bar>x\<bar>\<rfloor> - 1 else - bitlen (\<lceil>1 / \<bar>x\<bar>\<rceil> - 1))"

definition pow2 :: "int \<Rightarrow> real" where
  "pow2 e = (if 0 \<le> e then 2 ^ nat e else 1 / 2 ^ nat (- e))"

definition double_round :: "real \<Rightarrow> real" where
  "double_round x =
     (if x = 0 then 0
      else
        let e = float_exponent x;
            ulp = pow2 (e - 52)
        in of_int (round_half_even (x / ulp)) * ulp)"

text \<open>The float operations \<^verbatim>\<open>+\<close>, \<^verbatim>\<open>*\<close> and \<^verbatim>\<open>/\<close> (the divisor is not zero).\<close>

definition fadd :: "real \<Rightarrow> real \<Rightarrow> real" where
  "fadd a b = double_round (a + b)"

definition fmul :: "real \<Rightarrow> real \<Rightarrow> real" where
  "fmul a b = double_round (a * b)"

definition fdiv :: "real \<Rightarrow> real \<Rightarrow> real" where
  "fdiv a b = double_round (a / b)"

section \<open>Data model\<close>

text \<open>
  The bot computes with Python floats and ints. A float is modelled by the real number
  it denotes, a share quantity by an \<^typ>\<open>int\<close>. Where a computed float is truncated to
  an integer or decides the daily loss check (position sizing, the partial quantities,
  the sum and the ratio of the daily loss check), the arithmetic rounds every result
  to a double; the prices and amounts of the exit management are computed exactly.
  The order side is the string \<^verbatim>\<open>"BUY"\<close> or \<^verbatim>\<open>"SELL"\<close> in the source.
\<close>

datatype side = BUY | SELL

text \<open>
  The fields of \<^verbatim>\<open>config.py\<close> that the modelled functions read.
  \<open>PROFIT_TARGET_IS_RATIO\<close> stands for the test \<^verbatim>\<open>config.PROFIT_TARGET_TYPE == "ratio"\<close>.
\<close>

record config =
  LEVERAGE :: real
  USE_LEVERAGE_IN_SIZING :: bool
  USE_LIMIT_ORDERS :: bool
  MARGIN_UTILIZATION :: real
  USE_RETEST_ENTRY :: bool
  RETEST_MAX_CANDLES :: int
  RETEST_ZONE_PCT :: real
  USE_LIQUIDITY_FILTER :: bool
  USE_VOLUME_FILTER :: bool
  USE_NIFTY_FILTER :: bool
  USE_NIFTY_SOFT_BIAS :: bool
  NIFTY_STRONG_THRESHOLD_PCT :: real
  USE_TREND_FILTER :: bool
  DYNAMIC_SL_BUFFER :: real
  USE_ATR_TRAILING_EXIT :: bool
  ATR_TRAIL_MULTIPLIER :: real
  ATR_TRAIL_START_R :: real
  MAX_TRADES_PER_SYMBOL :: int
  MAX_TRADES_PER_DAY_PORTFOLIO :: int
  USE_PARTIAL_BOOKING :: bool
  STOPLOSS_DISTANCE_FACTOR :: real
  USE_DAILY_LOSS_LIMIT :: bool
  DAILY_LOSS_LIMIT_PCT :: real
  AUTO_SHUTDOWN_ON_LOSS_LIMIT :: bool
  PROFIT_TARGET_IS_RATIO :: bool
  PROFIT_TARGET_RATIO :: real
  PARTIAL_BOOKING_FIRST_CLOSE_PCT :: real
  PARTIAL_BOOKING_FIRST_TARGET_R :: real
  PARTIAL_BOOKING_SECOND_CLOSE_PCT :: real
  PARTIAL_BOOKING_SECOND_TARGET_R :: real
  PARTIAL_BOOKING_EOD_CLOSE_PCT :: real

text \<open>
  The values \<^verbatim>\<open>config.py\<close> assigns. The literal \<^verbatim>\<open>0.02\<close> of the daily loss limit is
  the double nearest to it; the other literals stand for their decimal value.
\<close>

definition default_config :: config where
  "default_config =
     \<lparr> LEVERAGE = 5,
       USE_LEVERAGE_IN_SIZING = True,
       USE_LIMIT_ORDERS = True,
       MARGIN_UTILIZATION = 0.50,
       USE_RETEST_ENTRY = True,
       RETEST_MAX_CANDLES = 3,
       RETEST_ZONE_PCT = 0.08,
       USE_LIQUIDITY_FILTER = True,
       USE_VOLUME_FILTER = True,
       USE_NIFTY_FILTER = True,
       USE_NIFTY_SOFT_BIAS = True,
       NIFTY_STRONG_THRESHOLD_PCT = 0.25,
       USE_TREND_FILTER = True,
       DYNAMIC_SL_BUFFER = 0.05,
       USE_ATR_TRAILING_EXIT = True,
       ATR_TRAIL_MULTIPLIER = 1.2,
       ATR_TRAIL_START_R = 1.5,
       MAX_TRADES_PER_SYMBOL = 999,
       MAX_TRADES_PER_DAY_PORTFOLIO = 999,
       USE_PARTIAL_BOOKING = True,
       STOPLOSS_DISTANCE_FACTOR = 0.5,
       USE_DAILY_LOSS_LIMIT = True,
       DAILY_LOSS_LIMIT_PCT = double_round 0.02,
       AUTO_SHUTDOWN_ON_LOSS_LIMIT = True,
       PROFIT_TARGET_IS_RATIO = True,
       PROFIT_TARGET_RATIO = 2.0,
       PARTIAL_BOOKING_FIRST_CLOSE_PCT = 0.25,
       PARTIAL_BOOKING_FIRST_TARGET_R = 0.5,
       PARTIAL_BOOKING_SECOND_CLOSE_PCT = 0.50,
       PARTIAL_BOOKING_SECOND_TARGET_R = 1.0,
       PARTIAL_BOOKING_EOD_CLOSE_PCT = 0.25 \<rparr>"

section \<open>Position sizing and initial stop\<close>

text \<open>Python's \<^verbatim>\<open>int(x)\<close> on a float truncates toward zero.\<close>

definition py_int :: "real \<Rightarrow> int" where
  "py_int x = (if 0 \<le> x then \<lfloor>x\<rfloor> else \<lceil>x\<rceil>)"

text \<open>
  \<^verbatim>\<open>calculate_dynamic_quantity\<close>, with \<^verbatim>\<open>self.account_balance\<close> already fetched
  and \<^verbatim>\<open>self.leverage\<close> as set from \<^verbatim>\<open>config.LEVERAGE\<close> by the constructor. The
  division by a zero price raises \<^verbatim>\<open>ZeroDivisionError\<close>, which the enclosing
  \<^verbatim>\<open>except\<close> turns into the result 0.
\<close>

definition calculate_dynamic_quantity :: "config \<Rightarrow> real \<Rightarrow> real \<Rightarrow> int" where
  "calculate_dynamic_quantity cfg account_balance entry_price =
     (if account_balance \<le> 0 then 0
      else
        let utilization_percentage = MARGIN_UTILIZATION cfg;
            leverage_factor = (if USE_LEVERAGE_IN_SIZING cfg then LEVERAGE cfg else 1);
            capital_for_trade = fmul (fmul account_balance utilization_percentage) leverage_factor
        in if entry_price = 0 then 0
           else
             let quantity = py_int (fdiv capital_for_trade entry_price)
             in if quantity < 1 then 0 else quantity)"

text \<open>\<^verbatim>\<open>apply_stoploss_distance_factor\<close>.\<close>

definition apply_stoploss_distance_factor :: "config \<Rightarrow> real \<Rightarrow> real \<Rightarrow> side \<Rightarrow> real" where
  "apply_stoploss_distance_factor cfg entry_price sl_price sd =
     (let factor = STOPLOSS_DISTANCE_FACTOR cfg
      in if factor \<ge> 1 then sl_price
         else
           let risk_distance = \<bar>entry_price - sl_price\<bar>;
               new_risk_distance = risk_distance * factor
           in if sd = BUY then entry_price - new_risk_distance
              else entry_price + new_risk_distance)"

text \<open>
  \<^verbatim>\<open>calculate_dynamic_sl\<close>. On floats neither branch raises, so the \<^verbatim>\<open>except\<close>
  fallback to VWAP is not reached.
\<close>

definition calculate_dynamic_sl :: "config \<Rightarrow> side \<Rightarrow> real \<Rightarrow> real \<Rightarrow> real \<Rightarrow> real" where
  "calculate_dynamic_sl cfg sd vwap h_5 l_5 =
     (if sd = BUY then
        let buffer = DYNAMIC_SL_BUFFER cfg;
            structural_sl = l_5 - buffer
        in min structural_sl vwap
      else
        let buffer = DYNAMIC_SL_BUFFER cfg;
            structural_sl = h_5 + buffer
        in max structural_sl vwap)"

text \<open>
  The tighter of two candidate levels, in the sense of the docstring and of the spec:
  the one closer to the entry price.
\<close>

definition tighter_of :: "real \<Rightarrow> real \<Rightarrow> real \<Rightarrow> real" where
  "tighter_of entry a b = (if \<bar>entry - a\<bar> \<le> \<bar>entry - b\<bar> then a else b)"

section \<open>Bot state\<close>

text \<open>
  Python truthiness of a value that is \<^verbatim>\<open>None\<close> or a number: \<^verbatim>\<open>None\<close> and zero are falsy.
  Broker order ids are modelled as natural numbers, \<^verbatim>\<open>None\<close> for a failed call.
\<close>

definition truthy :: "'a::zero option \<Rightarrow> bool" where
  "truthy x = (case x of None \<Rightarrow> False | Some v \<Rightarrow> v \<noteq> 0)"

datatype py_error = TypeError | UnboundLocalError

datatype trade_result = WIN | LOSS

text \<open>The values of \<^verbatim>\<open>self.nifty_bias\<close> and \<^verbatim>\<open>self.entry_window_state\<close>.\<close>

datatype bias = LONG | SHORT | NEUTRAL

datatype window = PRIMARY | SOFT | CLOSED

text \<open>The \<^verbatim>\<open>trade\<close> dictionary built when a position is opened.\<close>

record trade =
  t_entry_side :: side
  t_entry_price :: real
  t_entry_qty :: int
  t_exit_price :: "real option"
  t_exit_qty :: int
  t_sl_price :: real
  t_pnl :: "real option"
  t_trade_number :: int

text \<open>
  The attributes of the \<^verbatim>\<open>KiteApp\<close> instance that the entry search and the exit
  management read or write. Two fields record effects on collaborators: \<open>exit_log\<close>
  holds the price and quantity of every exit of the monitored position that
  \<^verbatim>\<open>close_position\<close> got an order id for (its \<^verbatim>\<open>log_trade("EXIT", ...)\<close> calls), and
  \<open>emergency_orders\<close> holds the symbol and quantity of every order that
  \<^verbatim>\<open>close_all_positions\<close> sent.
\<close>

record bot =
  account_balance :: "real option"
  starting_balance :: "real option"
  should_stop :: bool
  trades :: "trade list"
  trades_today :: "trade list"
  sl_order_id :: "nat option"
  num_trades_today :: int
  trade1_result :: "trade_result option"
  nifty_bias :: "bias option"
  entry_window_state :: window
  partial_booked_75pct :: bool
  sl_moved_to_breakeven :: bool
  remaining_quantity :: "int option"
  sl_moved_to_entry_after_2r :: bool
  trades_by_symbol :: "string \<rightharpoonup> int"
  nifty_strength_pct :: real
  daily_loss_pct :: real
  daily_pnl :: real
  exit_log :: "(real \<times> int) list"
  emergency_orders :: "(string \<times> int) list"

text \<open>The attribute values that \<^verbatim>\<open>KiteApp.__init__\<close> assigns.\<close>

definition init_bot :: bot where
  "init_bot =
     \<lparr> account_balance = None,
       starting_balance = None,
       should_stop = False,
       trades = [],
       trades_today = [],
       sl_order_id = None,
       num_trades_today = 0,
       trade1_result = None,
       nifty_bias = None,
       entry_window_state = PRIMARY,
       partial_booked_75pct = False,
       sl_moved_to_breakeven = False,
       remaining_quantity = None,
       sl_moved_to_entry_after_2r = False,
       trades_by_symbol = Map.empty,
       nifty_strength_pct = 0,
       daily_loss_pct = 0,
       daily_pnl = 0,
       exit_log = [],
       emergency_orders = [] \<rparr>"

section \<open>Daily loss limit\<close>

text \<open>
  \<^verbatim>\<open>sum([t.get('pnl', 0) for t in self.trades_today])\<close>: every trade dictionary has the
  key \<^verbatim>\<open>'pnl'\<close>, holding \<^verbatim>\<open>None\<close> until the trade is closed, and adding \<^verbatim>\<open>None\<close> raises.
  The sum starts at 0 and adds the values from left to right, rounding each result: the
  float sum of CPython up to version 3.11 (later versions compensate the rounding
  errors inside \<^verbatim>\<open>sum\<close>).
\<close>

fun sum_from :: "real \<Rightarrow> trade list \<Rightarrow> py_error + real" where
  "sum_from acc [] = Inr acc"
| "sum_from acc (t # ts) =
     (case t_pnl t of
        None \<Rightarrow> Inl TypeError
      | Some p \<Rightarrow> sum_from (fadd acc p) ts)"

definition sum_pnl :: "trade list \<Rightarrow> py_error + real" where
  "sum_pnl ts = sum_from 0 ts"

text \<open>
  \<^verbatim>\<open>close_all_positions\<close>. The argument is the dictionary that \<^verbatim>\<open>get_positions\<close> returns,
  with the keys \<^verbatim>\<open>'net'\<close> and \<^verbatim>\<open>'day'\<close>, as a list of keys with their rows. The loop
  \<^verbatim>\<open>for position in positions\<close> runs over the keys, and \<^verbatim>\<open>position.get\<close> on a key, a
  string, raises \<^verbatim>\<open>AttributeError\<close>: the enclosing \<^verbatim>\<open>except\<close> returns \<open>False\<close> and no order
  has been sent. An empty dictionary gives \<open>True\<close>. The result is the list of orders
  sent and the return value.
\<close>

type_synonym broker_positions = "(string \<times> (string \<times> int option) list) list"

definition close_all_positions :: "broker_positions \<Rightarrow> (string \<times> int) list \<times> bool" where
  "close_all_positions positions = (if positions = [] then ([], True) else ([], False))"

text \<open>
  \<^verbatim>\<open>check_daily_loss_limit\<close>. The result \<open>False\<close> is the tripped breaker. The value of
  \<^verbatim>\<open>close_all_positions\<close> is not used.
\<close>

definition check_daily_loss_limit ::
  "config \<Rightarrow> broker_positions \<Rightarrow> 'a bot_scheme \<Rightarrow> py_error + ('a bot_scheme \<times> bool)" where
  "check_daily_loss_limit cfg positions b =
     (if \<not> USE_DAILY_LOSS_LIMIT cfg then Inr (b, True)
      else
        case sum_pnl (trades_today b) of
          Inl e \<Rightarrow> Inl e
        | Inr pnl_sum \<Rightarrow>
            let actual_balance =
                  (if truthy (starting_balance b) then the (starting_balance b)
                   else if truthy (account_balance b) then the (account_balance b)
                   else 1);
                loss_pct = (if actual_balance > 0 then fdiv pnl_sum actual_balance else 0);
                b1 = b\<lparr>daily_pnl := pnl_sum, daily_loss_pct := loss_pct\<rparr>
            in if loss_pct \<le> - DAILY_LOSS_LIMIT_PCT cfg then
                 let b2 = b1\<lparr>emergency_orders :=
                              emergency_orders b1 @ fst (close_all_positions positions)\<rparr>;
                     b3 = (if AUTO_SHUTDOWN_ON_LOSS_LIMIT cfg then b2\<lparr>should_stop := True\<rparr> else b2)
                 in Inr (b3, False)
               else Inr (b1, True))"

section \<open>Exit management: the monitoring loop of \<^verbatim>\<open>run_daily_trading_session\<close>\<close>

text \<open>The values fixed when the position is opened and never assigned in the loop.\<close>

record position =
  entry_side :: side
  entry_price :: real
  quantity :: int
  target_price :: "real option"
  second_target_price :: "real option"
  eod_target_price :: "real option"
  first_close_qty :: int
  second_close_qty :: int
  base_risk :: real

text \<open>
  The quantities of the first two partial exits, with the repair that leaves at least
  one share for the last leg.
\<close>

definition partial_close_qtys :: "config \<Rightarrow> int \<Rightarrow> int \<times> int" where
  "partial_close_qtys cfg initial_quantity =
     (let first0 = py_int (fmul (real_of_int initial_quantity) (PARTIAL_BOOKING_FIRST_CLOSE_PCT cfg));
          second0 = py_int (fmul (real_of_int initial_quantity) (PARTIAL_BOOKING_SECOND_CLOSE_PCT cfg));
          first1 = (if initial_quantity \<ge> 2 \<and> first0 = 0 then 1 else first0);
          second1 = (if initial_quantity \<ge> 4 \<and> second0 = 0 then 1 else second0)
      in if first1 + second1 \<ge> initial_quantity then
           let overflow = (first1 + second1) - (initial_quantity - 1);
               reduce_second = (if overflow > 0 \<and> second1 > 0 then min second1 overflow else 0);
               second2 = second1 - reduce_second;
               overflow2 = overflow - reduce_second;
               first2 = (if overflow2 > 0 \<and> first1 > 0 then first1 - min first1 overflow2 else first1)
           in (first2, second2)
         else (first1, second1))"

definition open_position :: "config \<Rightarrow> side \<Rightarrow> real \<Rightarrow> int \<Rightarrow> real \<Rightarrow> position" where
  "open_position cfg sd price qty sl =
     (let risk = \<bar>price - sl\<bar>;
          tgt = (\<lambda>r. if sd = BUY then price + risk * r else price - risk * r)
      in \<lparr> entry_side = sd,
           entry_price = price,
           quantity = qty,
           target_price =
             (if PROFIT_TARGET_IS_RATIO cfg then Some (tgt (PARTIAL_BOOKING_FIRST_TARGET_R cfg)) else None),
           second_target_price =
             (if PROFIT_TARGET_IS_RATIO cfg then Some (tgt (PARTIAL_BOOKING_SECOND_TARGET_R cfg)) else None),
           eod_target_price =
             (if PROFIT_TARGET_IS_RATIO cfg then Some (tgt (PROFIT_TARGET_RATIO cfg)) else None),
           first_close_qty = fst (partial_close_qtys cfg qty),
           second_close_qty = snd (partial_close_qtys cfg qty),
           base_risk = \<bar>price - sl\<bar> \<rparr>)"

text \<open>The instance attributes together with the local variables the loop assigns.\<close>

record monitor = bot +
  trade :: trade
  last_price :: real
  first_partial_booked :: bool
  second_partial_booked :: bool
  realized_pnl :: real
  sl_price :: real

text \<open>
  The assignments between the saving of the trade and the \<^verbatim>\<open>while True\<close>: the trade
  counters, the \<^verbatim>\<open>trade\<close> dictionary and the initial values of the loop. The exit log
  starts empty: it lists the exits of this position.
\<close>

definition start_monitor :: "bot \<Rightarrow> string \<Rightarrow> position \<Rightarrow> real \<Rightarrow> monitor" where
  "start_monitor b selected_symbol pos sl =
     bot.extend
       (b\<lparr>num_trades_today := num_trades_today b + 1,
          trades_by_symbol :=
            (trades_by_symbol b)
              (selected_symbol \<mapsto>
                 (case trades_by_symbol b selected_symbol of None \<Rightarrow> 0 | Some n \<Rightarrow> n) + 1),
          partial_booked_75pct := False,
          sl_moved_to_breakeven := False,
          remaining_quantity := Some (quantity pos),
          exit_log := []\<rparr>)
       (monitor.fields
          \<lparr> t_entry_side = entry_side pos,
            t_entry_price = entry_price pos,
            t_entry_qty = quantity pos,
            t_exit_price = None,
            t_exit_qty = quantity pos,
            t_sl_price = sl,
            t_pnl = None,
            t_trade_number = num_trades_today b + 1 \<rparr>
          (entry_price pos) False False 0 sl)"

text \<open>What the broker and the clock return during one iteration of the loop.\<close>

record tick =
  now_hour :: int
  now_minute :: int
  live_price :: "real option"
  atr_value :: "real option"
  trail_sl_order :: "nat option"
  breakeven_sl_order :: "nat option"
  lock_sl_order :: "nat option"
  first_close_order :: "nat option"
  second_close_order :: "nat option"
  final_close_order :: "nat option"
  broker_positions :: broker_positions

text \<open>
  \<^verbatim>\<open>place_stoploss_order\<close> followed by the caller's
  \<^verbatim>\<open>if new_sl_id: self.sl_order_id = new_sl_id\<close>: the previous order is cancelled and
  forgotten, the new id is kept when the broker gave one.
\<close>

definition place_stoploss_order :: "nat option \<Rightarrow> 'a bot_scheme \<Rightarrow> 'a bot_scheme" where
  "place_stoploss_order order_id m =
     (let m1 = (if truthy (sl_order_id m) then m\<lparr>sl_order_id := None\<rparr> else m)
      in if truthy order_id then m1\<lparr>sl_order_id := order_id\<rparr> else m1)"

text \<open>\<^verbatim>\<open>close_position\<close>: the exit is logged exactly when the broker returns an order id.\<close>

definition close_position :: "nat option \<Rightarrow> int \<Rightarrow> real \<Rightarrow> monitor \<Rightarrow> monitor \<times> bool" where
  "close_position order_id qty exit_price m =
     (if truthy order_id then (m\<lparr>exit_log := exit_log m @ [(exit_price, qty)]\<rparr>, True)
      else (m, False))"

definition leg_pnl :: "position \<Rightarrow> real \<Rightarrow> int \<Rightarrow> real" where
  "leg_pnl pos price qty =
     (if entry_side pos = BUY then (price - entry_price pos) * real_of_int qty
      else (entry_price pos - price) * real_of_int qty)"

text \<open>
  \<^verbatim>\<open>self.remaining_quantity if (self.remaining_quantity and self.remaining_quantity > 0)
  else quantity\<close>, and the variant without the comparison.
\<close>

definition exit_quantity :: "position \<Rightarrow> monitor \<Rightarrow> int" where
  "exit_quantity pos m =
     (if truthy (remaining_quantity m) \<and> the (remaining_quantity m) > 0
      then the (remaining_quantity m) else quantity pos)"

definition current_quantity :: "position \<Rightarrow> monitor \<Rightarrow> int" where
  "current_quantity pos m =
     (if truthy (remaining_quantity m) then the (remaining_quantity m) else quantity pos)"

text \<open>
  The closing of the whole remaining position, shared by the four exits of the loop.
  \<open>set_result\<close> tells the exits that assign \<^verbatim>\<open>self.trade1_result\<close>.
\<close>

definition final_close :: "bool \<Rightarrow> position \<Rightarrow> nat option \<Rightarrow> real \<Rightarrow> int \<Rightarrow> monitor \<Rightarrow> monitor" where
  "final_close set_result pos order_id price exit_qty m =
     (case close_position order_id exit_qty price m of
        (m1, ok) \<Rightarrow>
          if ok then
            let total = realized_pnl m1 + leg_pnl pos price exit_qty;
                tr = (trade m1)\<lparr>t_exit_price := Some price, t_pnl := Some total\<rparr>;
                m2 = m1\<lparr>trade := tr, trades := trades m1 @ [tr]\<rparr>
            in if set_result then m2\<lparr>trade1_result := Some (if total > 0 then WIN else LOSS)\<rparr>
               else m2
          else m1)"

text \<open>The ATR trailing stop update.\<close>

definition atr_trailing_update :: "config \<Rightarrow> position \<Rightarrow> tick \<Rightarrow> real \<Rightarrow> monitor \<Rightarrow> monitor" where
  "atr_trailing_update cfg pos tk price m =
     (if USE_ATR_TRAILING_EXIT cfg \<and> base_risk pos > 0 then
        let profit = (if entry_side pos = BUY then price - entry_price pos else entry_price pos - price)
        in if profit \<ge> base_risk pos * ATR_TRAIL_START_R cfg then
             if truthy (atr_value tk) \<and> the (atr_value tk) > 0 then
               let trail_distance = the (atr_value tk) * ATR_TRAIL_MULTIPLIER cfg
               in if entry_side pos = BUY then
                    let new_sl = price - trail_distance
                    in if new_sl > sl_price m
                       then place_stoploss_order (trail_sl_order tk) (m\<lparr>sl_price := new_sl\<rparr>)
                       else m
                  else
                    let new_sl = price + trail_distance
                    in if new_sl < sl_price m
                       then place_stoploss_order (trail_sl_order tk) (m\<lparr>sl_price := new_sl\<rparr>)
                       else m
             else m
           else m
      else m)"

text \<open>The move of the stop to the entry price at 1R.\<close>

definition breakeven_move :: "position \<Rightarrow> tick \<Rightarrow> real \<Rightarrow> monitor \<Rightarrow> monitor" where
  "breakeven_move pos tk price m =
     (let risk = (if base_risk pos > 0 then base_risk pos else \<bar>entry_price pos - sl_price m\<bar>);
          profit = \<bar>price - entry_price pos\<bar>
      in if \<not> sl_moved_to_breakeven m \<and> profit \<ge> risk then
           place_stoploss_order (breakeven_sl_order tk)
             (m\<lparr>sl_price := entry_price pos, sl_moved_to_breakeven := True\<rparr>)
         else m)"

definition target_touched :: "position \<Rightarrow> real option \<Rightarrow> real \<Rightarrow> bool" where
  "target_touched pos tgt price =
     (truthy tgt \<and>
      ((entry_side pos = BUY \<and> price \<ge> the tgt) \<or> (entry_side pos = SELL \<and> price \<le> the tgt)))"

text \<open>Target 1: the first partial exit.\<close>

definition first_target_booking :: "position \<Rightarrow> tick \<Rightarrow> real \<Rightarrow> monitor \<Rightarrow> monitor" where
  "first_target_booking pos tk price m =
     (let cur = current_quantity pos m
      in if \<not> first_partial_booked m \<and> truthy (target_price pos) \<and> first_close_qty pos > 0 \<and> cur > 1
            \<and> target_touched pos (target_price pos) price then
           let close_qty = min (first_close_qty pos) (max (cur - 1) 0)
           in if close_qty > 0 then
                case close_position (first_close_order tk) close_qty price m of
                  (m1, ok) \<Rightarrow>
                    if ok then
                      m1\<lparr>realized_pnl := realized_pnl m1 + leg_pnl pos price close_qty,
                         first_partial_booked := True,
                         remaining_quantity := Some (cur - close_qty)\<rparr>
                    else m1
              else m
         else m)"

text \<open>
  Target 2: the second partial exit, the reset of the stop to the entry price, and the
  second block that assigns the booked flag and the remaining quantity again.
\<close>

definition second_target_booking :: "position \<Rightarrow> tick \<Rightarrow> real \<Rightarrow> monitor \<Rightarrow> monitor" where
  "second_target_booking pos tk price m =
     (let cur = current_quantity pos m
      in if first_partial_booked m \<and> \<not> second_partial_booked m \<and> truthy (second_target_price pos)
            \<and> second_close_qty pos > 0 \<and> cur > 1
            \<and> target_touched pos (second_target_price pos) price then
           let close_qty = min (second_close_qty pos) (max (cur - 1) 0)
           in if close_qty > 0 then
                case close_position (second_close_order tk) close_qty price m of
                  (m1, ok) \<Rightarrow>
                    if ok then
                      let m2 = m1\<lparr>realized_pnl := realized_pnl m1 + leg_pnl pos price close_qty,
                                  second_partial_booked := True,
                                  remaining_quantity := Some (cur - close_qty)\<rparr>;
                          m3 = m2\<lparr>sl_price := entry_price pos, sl_moved_to_entry_after_2r := True\<rparr>;
                          m4 = place_stoploss_order (lock_sl_order tk) m3
                      in m4\<lparr>second_partial_booked := True,
                            partial_booked_75pct := True,
                            remaining_quantity := Some (cur - close_qty)\<rparr>
                    else m1
              else m
         else m)"

definition partial_booking :: "config \<Rightarrow> position \<Rightarrow> tick \<Rightarrow> real \<Rightarrow> monitor \<Rightarrow> monitor" where
  "partial_booking cfg pos tk price m =
     (if USE_PARTIAL_BOOKING cfg then
        second_target_booking pos tk price
          (first_target_booking pos tk price (breakeven_move pos tk price m))
      else m)"

datatype exit_reason = MarketClose | DailyLossLimit | ProfitTarget | StopLoss

text \<open>
  The result of one iteration: the loop goes on, it ends (\<^verbatim>\<open>break\<close> or \<^verbatim>\<open>return\<close>), or an
  exception leaves it.
\<close>

datatype outcome = Continue monitor | Exit exit_reason monitor | Raised py_error

text \<open>The profit-target and stoploss checks on a live price.\<close>

definition exit_checks :: "config \<Rightarrow> position \<Rightarrow> tick \<Rightarrow> real \<Rightarrow> monitor \<Rightarrow> outcome" where
  "exit_checks cfg pos tk price m =
     (let exit_qty = exit_quantity pos m
      in if truthy (target_price pos) \<and> exit_qty > 0 \<and> entry_side pos = BUY
            \<and> price \<ge> the (target_price pos) \<and> \<not> USE_PARTIAL_BOOKING cfg then
           Exit ProfitTarget (final_close True pos (final_close_order tk) price exit_qty m)
         else if truthy (target_price pos) \<and> exit_qty > 0 \<and> entry_side pos = SELL
            \<and> price \<le> the (target_price pos) \<and> \<not> USE_PARTIAL_BOOKING cfg then
           Exit ProfitTarget (final_close True pos (final_close_order tk) price exit_qty m)
         else if entry_side pos = BUY \<and> price \<le> sl_price m \<and> exit_qty > 0 then
           Exit StopLoss (final_close True pos (final_close_order tk) price exit_qty m)
         else if entry_side pos = SELL \<and> price \<ge> sl_price m \<and> exit_qty > 0 then
           Exit StopLoss (final_close True pos (final_close_order tk) price exit_qty m)
         else Continue m)"

text \<open>The part of an iteration after the clock and the daily loss limit.\<close>

definition price_tick :: "config \<Rightarrow> position \<Rightarrow> tick \<Rightarrow> monitor \<Rightarrow> outcome" where
  "price_tick cfg pos tk m =
     (if truthy (live_price tk) then
        let price = the (live_price tk);
            m1 = m\<lparr>last_price := price\<rparr>;
            m2 = atr_trailing_update cfg pos tk price m1;
            m3 = partial_booking cfg pos tk price m2
        in exit_checks cfg pos tk price m3
      else Continue m)"

text \<open>The forced exit at 15:25 and on the daily loss limit: the last observed price is used.\<close>

definition forced_close :: "position \<Rightarrow> tick \<Rightarrow> monitor \<Rightarrow> monitor" where
  "forced_close pos tk m =
     (let exit_qty = exit_quantity pos m
      in if exit_qty > 0 then final_close False pos (final_close_order tk) (last_price m) exit_qty m
         else m)"

text \<open>One iteration of the \<^verbatim>\<open>while True\<close> loop.\<close>

definition monitor_tick :: "config \<Rightarrow> position \<Rightarrow> tick \<Rightarrow> monitor \<Rightarrow> outcome" where
  "monitor_tick cfg pos tk m =
     (if now_hour tk = 15 \<and> now_minute tk \<ge> 25 then Exit MarketClose (forced_close pos tk m)
      else if USE_DAILY_LOSS_LIMIT cfg then
        case check_daily_loss_limit cfg (broker_positions tk) m of
          Inl e \<Rightarrow> Raised e
        | Inr (m1, can_continue) \<Rightarrow>
            if \<not> can_continue then Exit DailyLossLimit (forced_close pos tk m1)
            else price_tick cfg pos tk m1
      else price_tick cfg pos tk m)"

text \<open>
  The loop over the iterations that the list of ticks supplies. \<open>Continue\<close> is the loop
  still running when the ticks are used up.
\<close>

fun monitor_loop :: "config \<Rightarrow> position \<Rightarrow> tick list \<Rightarrow> monitor \<Rightarrow> outcome" where
  "monitor_loop cfg pos [] m = Continue m"
| "monitor_loop cfg pos (tk # tks) m =
     (case monitor_tick cfg pos tk m of
        Continue m1 \<Rightarrow> monitor_loop cfg pos tks m1
      | Exit r m1 \<Rightarrow> Exit r m1
      | Raised e \<Rightarrow> Raised e)"

text \<open>The total quantity of the exits logged so far.\<close>

definition exited_quantity :: "monitor \<Rightarrow> int" where
  "exited_quantity m = sum_list (map snd (exit_log m))"

section \<open>Entry search: the signal loop of \<^verbatim>\<open>run_daily_trading_session\<close>\<close>

text \<open>The tuple \<^verbatim>\<open>get_latest_5min_candle\<close> returns; the time stamp is \<^verbatim>\<open>latest.get('date')\<close>.\<close>

record candle =
  o_5 :: real
  h_5 :: real
  l_5 :: real
  c_5 :: real
  v_5 :: real
  candle_time :: "nat option"

text \<open>The per-symbol entry of \<^verbatim>\<open>symbols_data\<close>.\<close>

record symbol_data =
  token :: nat
  vwap :: real
  long_trigger :: real
  short_trigger :: real
  exchange :: string

text \<open>The record kept in \<^verbatim>\<open>pending_retests\<close> for a symbol that broke out.\<close>

record retest_state =
  rt_side :: side
  trigger :: real
  last_candle_time :: "nat option"
  candles_waited :: int

text \<open>
  What the broker data gives for one symbol in one pass of the scan: the latest candle,
  the result of the volume comparison inside \<^verbatim>\<open>check_volume_confirmation\<close>, the value of
  \<^verbatim>\<open>get_trend_vwap\<close>, and the result of \<^verbatim>\<open>check_liquidity_and_spread\<close>.
\<close>

record feed =
  candle :: "candle option"
  volume_ratio_ok :: bool
  trend_vwap :: "real option"
  liquidity_ok :: bool

definition check_volume_confirmation :: "config \<Rightarrow> feed \<Rightarrow> bool" where
  "check_volume_confirmation cfg fd = (if \<not> USE_VOLUME_FILTER cfg then True else volume_ratio_ok fd)"

definition is_trend_aligned :: "config \<Rightarrow> feed \<Rightarrow> real \<Rightarrow> side \<Rightarrow> bool" where
  "is_trend_aligned cfg fd price sd =
     (if \<not> USE_TREND_FILTER cfg then True
      else if \<not> truthy (trend_vwap fd) then True
      else if sd = BUY then price > the (trend_vwap fd)
      else price < the (trend_vwap fd))"

definition check_liquidity_and_spread :: "feed \<Rightarrow> bool" where
  "check_liquidity_and_spread fd = liquidity_ok fd"

definition is_nifty_bias_blocking :: "config \<Rightarrow> 'a bot_scheme \<Rightarrow> side \<Rightarrow> bool" where
  "is_nifty_bias_blocking cfg b sd =
     (if \<not> USE_NIFTY_FILTER cfg then False
      else if \<not> USE_NIFTY_SOFT_BIAS cfg then
        (if sd = BUY \<and> nifty_bias b \<noteq> Some LONG then True
         else if sd = SELL \<and> nifty_bias b \<noteq> Some SHORT then True
         else False)
      else if nifty_bias b = Some NEUTRAL then False
      else if nifty_strength_pct b < NIFTY_STRONG_THRESHOLD_PCT cfg then False
      else if sd = BUY \<and> nifty_bias b = Some SHORT then True
      else if sd = SELL \<and> nifty_bias b = Some LONG then True
      else False)"

text \<open>Why a symbol gives no entry in a pass, in the words of the skip messages.\<close>

datatype skip =
    TradeCapReached | NoCandle | SameCandle | RetestTimeout | RetestNotConfirmed
  | VolumeNotConfirmedOnRetest | VolumeNotConfirmedInSoftWindow | NiftyBiasBlocking
  | TrendNotAligned | LiquidityFailed | WaitingForRetest | NoBreakout

datatype verdict = Skipped skip | Signal side real

text \<open>The handling of a symbol that waits for its retest.\<close>

definition retest_ok :: "retest_state \<Rightarrow> symbol_data \<Rightarrow> candle \<Rightarrow> real \<Rightarrow> bool" where
  "retest_ok st data cd zone_pct =
     (let zone_low = trigger st * (1 - zone_pct);
          zone_high = trigger st * (1 + zone_pct)
      in if rt_side st = BUY
         then l_5 cd \<le> zone_high \<and> h_5 cd \<ge> zone_low \<and> c_5 cd > trigger st \<and> c_5 cd > vwap data
         else h_5 cd \<ge> zone_low \<and> l_5 cd \<le> zone_high \<and> c_5 cd < trigger st \<and> c_5 cd < vwap data)"

definition retest_check ::
  "config \<Rightarrow> 'a bot_scheme \<Rightarrow> symbol_data \<Rightarrow> feed \<Rightarrow> candle \<Rightarrow> bool \<Rightarrow> retest_state
   \<Rightarrow> retest_state option \<times> verdict" where
  "retest_check cfg b data fd cd volume_confirmed st =
     (if candle_time cd = last_candle_time st then (Some st, Skipped SameCandle)
      else
        let st1 = st\<lparr>last_candle_time := candle_time cd, candles_waited := candles_waited st + 1\<rparr>
        in if candles_waited st1 > RETEST_MAX_CANDLES cfg then (None, Skipped RetestTimeout)
           else if \<not> retest_ok st1 data cd (RETEST_ZONE_PCT cfg / 100)
             then (Some st1, Skipped RetestNotConfirmed)
           else if USE_VOLUME_FILTER cfg \<and> \<not> volume_confirmed
             then (Some st1, Skipped VolumeNotConfirmedOnRetest)
           else if is_nifty_bias_blocking cfg b (rt_side st1)
             then (Some st1, Skipped NiftyBiasBlocking)
           else if USE_TREND_FILTER cfg \<and> \<not> is_trend_aligned cfg fd (c_5 cd) (rt_side st1)
             then (Some st1, Skipped TrendNotAligned)
           else if USE_LIQUIDITY_FILTER cfg \<and> \<not> check_liquidity_and_spread fd
             then (Some st1, Skipped LiquidityFailed)
           else (None, Signal (rt_side st1) (c_5 cd)))"

text \<open>The filters behind a breakout of one side, shared by the long and the short branch.\<close>

definition breakout_filters ::
  "config \<Rightarrow> 'a bot_scheme \<Rightarrow> feed \<Rightarrow> candle \<Rightarrow> bool \<Rightarrow> side \<Rightarrow> real \<Rightarrow> retest_state option
   \<Rightarrow> retest_state option \<times> verdict" where
  "breakout_filters cfg b fd cd volume_confirmed sd trig pend =
     (if entry_window_state b = SOFT \<and> \<not> volume_confirmed
        then (pend, Skipped VolumeNotConfirmedInSoftWindow)
      else if is_nifty_bias_blocking cfg b sd then (pend, Skipped NiftyBiasBlocking)
      else if USE_TREND_FILTER cfg \<and> \<not> is_trend_aligned cfg fd (c_5 cd) sd
        then (pend, Skipped TrendNotAligned)
      else if USE_LIQUIDITY_FILTER cfg \<and> \<not> check_liquidity_and_spread fd
        then (pend, Skipped LiquidityFailed)
      else if USE_RETEST_ENTRY cfg then
        (Some \<lparr> rt_side = sd, trigger = trig, last_candle_time = candle_time cd,
                 candles_waited = 0 \<rparr>,
         Skipped WaitingForRetest)
      else (pend, Signal sd (c_5 cd)))"

text \<open>
  The body of the \<^verbatim>\<open>for symbol, data in symbols_data.items()\<close> loop for one symbol.
  \<open>pend\<close> is the symbol's entry of \<^verbatim>\<open>pending_retests\<close>, returned updated.
\<close>

definition evaluate_symbol ::
  "config \<Rightarrow> 'a bot_scheme \<Rightarrow> string \<Rightarrow> symbol_data \<Rightarrow> feed \<Rightarrow> retest_state option
   \<Rightarrow> retest_state option \<times> verdict" where
  "evaluate_symbol cfg b symbol data fd pend =
     (if (case trades_by_symbol b symbol of None \<Rightarrow> 0 | Some n \<Rightarrow> n) \<ge> MAX_TRADES_PER_SYMBOL cfg
        then (pend, Skipped TradeCapReached)
      else
        case candle fd of
          None \<Rightarrow> (pend, Skipped NoCandle)
        | Some cd \<Rightarrow>
            let volume_confirmed = check_volume_confirmation cfg fd
            in if USE_RETEST_ENTRY cfg \<and> pend \<noteq> None
                 then retest_check cfg b data fd cd volume_confirmed (the pend)
               else if c_5 cd > long_trigger data \<and> c_5 cd > vwap data
                 then breakout_filters cfg b fd cd volume_confirmed BUY (long_trigger data) pend
               else if c_5 cd < short_trigger data \<and> c_5 cd < vwap data
                 then breakout_filters cfg b fd cd volume_confirmed SELL (short_trigger data) pend
               else (pend, Skipped NoBreakout))"

text \<open>
  The scan of the symbols in their declared order; the first signal ends it. \<open>feeds\<close>
  gives the broker data of each symbol for this pass.
\<close>

fun scan_symbols ::
  "config \<Rightarrow> 'a bot_scheme \<Rightarrow> (string \<Rightarrow> feed) \<Rightarrow> (string \<times> symbol_data) list
   \<Rightarrow> (string \<rightharpoonup> retest_state) \<Rightarrow> (string \<rightharpoonup> retest_state) \<times> (string \<times> side \<times> real) option" where
  "scan_symbols cfg b feeds [] pending = (pending, None)"
| "scan_symbols cfg b feeds ((symbol, data) # rest) pending =
     (case evaluate_symbol cfg b symbol data (feeds symbol) (pending symbol) of
        (pend1, Signal sd price) \<Rightarrow> (pending(symbol := pend1), Some (symbol, sd, price))
      | (pend1, Skipped r) \<Rightarrow> scan_symbols cfg b feeds rest (pending(symbol := pend1)))"

text \<open>
  One pass of the \<^verbatim>\<open>while not signal_found and not self.should_stop\<close> loop at the clock
  value \<^verbatim>\<open>current_time_int\<close> (hour times 100 plus minute).
\<close>

definition window_state :: "int \<Rightarrow> window" where
  "window_state current_time_int =
     (if current_time_int < 1015 then PRIMARY
      else if current_time_int < 1045 then SOFT
      else CLOSED)"

datatype entry_result =
    SearchEnded
  | NoSignal "string \<rightharpoonup> retest_state"
  | SignalFound string side real "string \<rightharpoonup> retest_state"

definition entry_search_tick ::
  "config \<Rightarrow> 'a bot_scheme \<Rightarrow> int \<Rightarrow> (string \<Rightarrow> feed) \<Rightarrow> (string \<times> symbol_data) list
   \<Rightarrow> (string \<rightharpoonup> retest_state) \<Rightarrow> entry_result" where
  "entry_search_tick cfg b current_time_int feeds symbols_data pending =
     (if should_stop b then SearchEnded
      else if num_trades_today b \<ge> MAX_TRADES_PER_DAY_PORTFOLIO cfg then SearchEnded
      else if current_time_int \<ge> 1045 then SearchEnded
      else if window_state current_time_int = CLOSED then SearchEnded
      else
        case scan_symbols cfg (b\<lparr>entry_window_state := window_state current_time_int\<rparr>)
               feeds symbols_data pending of
          (pending1, None) \<Rightarrow> NoSignal pending1
        | (pending1, Some (symbol, sd, price)) \<Rightarrow> SignalFound symbol sd price pending1)"

section \<open>The trade after a signal\<close>








section \<open>Properties of the exit management, and example runs\<close>

text \<open>The state an iteration leaves behind, when no exception left the loop.\<close>

fun outcome_monitor :: "outcome \<Rightarrow> monitor option" where
  "outcome_monitor (Continue m) = Some m"
| "outcome_monitor (Exit r m) = Some m"
| "outcome_monitor (Raised e) = None"

text \<open>
  The quantity invariant in the words of the spec: the remaining quantity is the
  initial quantity minus the exited quantities, and it is not negative.
\<close>

definition quantity_accounted :: "position \<Rightarrow> monitor \<Rightarrow> bool" where
  "quantity_accounted pos m \<longleftrightarrow>
     remaining_quantity m = Some (quantity pos - exited_quantity m) \<and> quantity pos - exited_quantity m \<ge> 0"



text \<open>
  An example: a long position of 10 shares entered at 100 with the stop at 95 under
  the values of \<^verbatim>\<open>config.py\<close>, and an iteration at 11:00 that sees the price 110 and
  an ATR of 1, every broker call succeeding.
\<close>

definition example_position :: position where
  "example_position = open_position default_config BUY 100 10 95"

definition example_tick :: tick where
  "example_tick =
     \<lparr> now_hour = 11, now_minute = 0, live_price = Some 110, atr_value = Some 1,
       trail_sl_order = Some 7, breakeven_sl_order = Some 8, lock_sl_order = Some 9,
       first_close_order = Some 10, second_close_order = Some 11, final_close_order = Some 12,
       broker_positions = [(''net'', []), (''day'', [])] \<rparr>"

definition example_monitor :: monitor where
  "example_monitor = start_monitor init_bot ''TATASTEEL'' example_position 95"

text \<open>The state after that iteration.\<close>

definition example_after :: monitor where
  "example_after =
     example_monitor\<lparr>last_price := 110, sl_price := 100, sl_order_id := Some 9,
       sl_moved_to_breakeven := True, exit_log := [(110, 2), (110, 5)], realized_pnl := 70,
       first_partial_booked := True, second_partial_booked := True,
       partial_booked_75pct := True, sl_moved_to_entry_after_2r := True,
       remaining_quantity := Some 3\<rparr>"

text \<open>An iteration after that one that sees the price 97, below the stop at 100.\<close>

definition example_gap_tick :: tick where
  "example_gap_tick = example_tick\<lparr>live_price := Some 97\<rparr>"

text \<open>An iteration that sees the price 94, below the stop, and the state it leaves.\<close>

definition example_stop_tick :: tick where
  "example_stop_tick = example_tick\<lparr>live_price := Some 94\<rparr>"

definition example_stopped :: monitor where
  "example_stopped =
     example_monitor\<lparr>last_price := 94, sl_price := 100, sl_order_id := Some 8,
       sl_moved_to_breakeven := True, exit_log := [(94, 10)],
       trade := (trade example_monitor)\<lparr>t_exit_price := Some 94, t_pnl := Some (- 60)\<rparr>,
       trades := [(trade example_monitor)\<lparr>t_exit_price := Some 94, t_pnl := Some (- 60)\<rparr>],
       trade1_result := Some LOSS\<rparr>"

text \<open>
  A bot with a starting balance of 20000 whose list \<^verbatim>\<open>trades\<close> holds one closed trade
  with a loss of 6000, and the realized P&L of the closed trades of a bot.
\<close>

definition closed_loss_trade :: trade where
  "closed_loss_trade =
     \<lparr> t_entry_side = BUY, t_entry_price = 100, t_entry_qty = 600, t_exit_price = Some 90,
       t_exit_qty = 600, t_sl_price = 95, t_pnl = Some (- 6000), t_trade_number = 1 \<rparr>"


text \<open>
  A bot whose list \<^verbatim>\<open>trades_today\<close> holds three closed trades with the P&L values
  \<^verbatim>\<open>-295.26\<close>, \<^verbatim>\<open>-249.56\<close> and \<^verbatim>\<open>144.82\<close> as doubles: the list as it would be if the
  closed trades were appended to it.
\<close>

definition closed_trade_with :: "real \<Rightarrow> trade" where
  "closed_trade_with p = closed_loss_trade\<lparr>t_pnl := Some p\<rparr>"

definition rounding_bot :: bot where
  "rounding_bot =
     init_bot\<lparr>starting_balance := Some 20000, account_balance := Some 20000,
       trades_today := [closed_trade_with (double_round (- 295.26)),
                        closed_trade_with (double_round (- 249.56)),
                        closed_trade_with (double_round 144.82)]\<rparr>"


text \<open>
  Inputs of the position sizing: a configuration with a negative utilization, and the
  doubles that the literals \<^verbatim>\<open>1234.56\<close> and \<^verbatim>\<open>96.45\<close> denote.
\<close>

definition negative_sizing_config :: config where
  "negative_sizing_config = default_config\<lparr>MARGIN_UTILIZATION := - 0.5\<rparr>"

definition example_balance :: real where
  "example_balance = double_round 1234.56"

definition example_price :: real where
  "example_price = double_round 96.45"

section \<open>Example inputs of the entry search\<close>

text \<open>
  A symbol with long trigger 100 and VWAP 99, a candle that closes at 101 after a low
  of 100.05, broker data that passes every filter, and the same data with a weak
  volume.
\<close>

definition example_symbol_data :: symbol_data where
  "example_symbol_data =
     \<lparr> token = 1, vwap = 99, long_trigger = 100, short_trigger = 98, exchange = ''NSE'' \<rparr>"

definition example_candle :: candle where
  "example_candle =
     \<lparr> o_5 = 100, h_5 = 101.5, l_5 = 100.05, c_5 = 101, v_5 = 5000, candle_time = Some 2 \<rparr>"

definition example_feed :: feed where
  "example_feed =
     \<lparr> candle = Some example_candle, volume_ratio_ok = True, trend_vwap = Some 99.5,
       liquidity_ok = True \<rparr>"

definition example_feeds :: "string \<Rightarrow> feed" where
  "example_feeds symbol = example_feed"

definition weak_volume_feeds :: "string \<Rightarrow> feed" where
  "weak_volume_feeds symbol = example_feed\<lparr>volume_ratio_ok := False\<rparr>"

text \<open>
  A long retest record that last saw the candle before, the pending map that holds it,
  and the pending map whose record has seen the example candle already.
\<close>

definition example_retest :: retest_state where
  "example_retest =
     \<lparr> rt_side = BUY, trigger = 100, last_candle_time = Some 1, candles_waited = 0 \<rparr>"

definition example_pending :: "string \<rightharpoonup> retest_state" where
  "example_pending = [''TATASTEEL'' \<mapsto> example_retest]"

definition seen_pending :: "string \<rightharpoonup> retest_state" where
  "seen_pending = [''TATASTEEL'' \<mapsto> example_retest\<lparr>last_candle_time := Some 2\<rparr>]"

text \<open>A bot with a neutral index bias, and the configuration with the retest entry off.\<close>

definition example_bot :: bot where
  "example_bot = init_bot\<lparr>nifty_bias := Some NEUTRAL\<rparr>"

definition no_retest_config :: config where
  "no_retest_config = default_config\<lparr>USE_RETEST_ENTRY := False\<rparr>"


section \<open>Floating point\<close>

lemma pow2_powr: "pow2 e = 2 powr of_int e"
proof (cases "0 \<le> e")
  case True
  then have "of_int e = real (nat e)" by simp
  then have "(2::real) powr of_int e = 2 powr real (nat e)" by (simp only:)
  also have "\<dots> = 2 ^ nat e" by (rule powr_realpow) simp
  finally show ?thesis using True by (simp add: pow2_def)
next
  case False
  then have "of_int e = - real (nat (- e))" by simp
  then have "(2::real) powr of_int e = 2 powr (- real (nat (- e)))" by (simp only:)
  also have "\<dots> = 1 / 2 powr real (nat (- e))" by (rule powr_minus_divide)
  also have "2 powr real (nat (- e)) = (2::real) ^ nat (- e)" by (rule powr_realpow) simp
  finally show ?thesis using False by (simp add: pow2_def)
qed

lemma floor_log2_eqI:
  assumes "0 < a" and "2 powr of_int e \<le> a" and "a < 2 powr of_int (e + 1)"
  shows "\<lfloor>log 2 a\<rfloor> = e"
proof -
  have "log 2 (2 powr of_int e) \<le> log 2 a"
    using assms(1,2) by (subst log_le_cancel_iff) simp_all
  then have lo: "of_int e \<le> log 2 a" by simp
  have "log 2 a < log 2 (2 powr of_int (e + 1))"
    using assms(1,3) by (subst log_less_cancel_iff) simp_all
  then have hi: "log 2 a < of_int e + 1" by simp
  show ?thesis using lo hi by (intro floor_unique) simp_all
qed

lemma float_exponent_log:
  assumes "x \<noteq> 0"
  shows "float_exponent x = \<lfloor>log 2 \<bar>x\<bar>\<rfloor>"
proof (cases "1 \<le> \<bar>x\<bar>")
  case True
  define n where "n = \<lfloor>\<bar>x\<bar>\<rfloor>"
  have n1: "1 \<le> n" using True by (simp add: n_def le_floor_iff)
  then have n0: "0 < n" by simp
  have b: "2 ^ nat (bitlen n - 1) \<le> n" "n < 2 ^ nat (bitlen n)"
    using bitlen_bounds [OF n0] by simp_all
  have bl: "1 \<le> bitlen n"
  proof (rule ccontr)
    assume "\<not> 1 \<le> bitlen n"
    then have "nat (bitlen n) = 0" by simp
    then show False using b(2) n1 by simp
  qed
  define e where "e = bitlen n - 1"
  have e0: "0 \<le> e" using bl by (simp add: e_def)
  have nx: "of_int n \<le> \<bar>x\<bar>" "\<bar>x\<bar> < of_int n + 1" unfolding n_def by linarith+
  have "(2::real) ^ nat e \<le> of_int n"
    using b(1) unfolding e_def by (metis of_int_le_iff of_int_numeral of_int_power)
  moreover have pe: "pow2 e = 2 ^ nat e" using e0 by (simp add: pow2_def)
  ultimately have lo: "pow2 e \<le> \<bar>x\<bar>" using nx(1) by linarith
  have "nat (bitlen n) = Suc (nat e)" using bl by (simp add: e_def)
  then have "n + 1 \<le> 2 ^ Suc (nat e)" using b(2) by simp
  then have "of_int (n + 1) \<le> (2::real) ^ Suc (nat e)"
    by (metis of_int_le_iff of_int_numeral of_int_power)
  then have "\<bar>x\<bar> < 2 ^ Suc (nat e)" using nx(2) by simp
  moreover have "nat (e + 1) = Suc (nat e)" using e0 by simp
  then have "pow2 (e + 1) = 2 ^ Suc (nat e)" using e0 by (simp add: pow2_def)
  ultimately have hi: "\<bar>x\<bar> < pow2 (e + 1)" by (simp only:)
  have "\<lfloor>log 2 \<bar>x\<bar>\<rfloor> = e"
    using assms lo hi by (intro floor_log2_eqI) (simp_all add: pow2_powr)
  then show ?thesis using True by (simp add: float_exponent_def n_def e_def)
next
  case False
  define y where "y = 1 / \<bar>x\<bar>"
  have y1: "1 < y" using False assms by (simp add: y_def)
  define m where "m = \<lceil>y\<rceil>"
  have my: "of_int m - 1 < y" "y \<le> of_int m" unfolding m_def by linarith+
  have m2: "2 \<le> m" using y1 my(2) by linarith
  then have m0: "0 < m - 1" by simp
  define k where "k = bitlen (m - 1)"
  have b: "2 ^ nat (k - 1) \<le> m - 1" "m - 1 < 2 ^ nat k"
    using bitlen_bounds [OF m0] by (simp_all add: k_def)
  have k1: "1 \<le> k"
  proof (rule ccontr)
    assume "\<not> 1 \<le> k"
    then have "nat k = 0" by simp
    then show False using b(2) m2 by simp
  qed
  have "m \<le> 2 ^ nat k" using b(2) by simp
  then have "of_int m \<le> (2::real) ^ nat k"
    by (metis of_int_le_iff of_int_numeral of_int_power)
  then have yk: "y \<le> 2 ^ nat k" using my(2) by linarith
  have "(2::real) ^ nat (k - 1) \<le> of_int (m - 1)"
    using b(1) by (metis of_int_le_iff of_int_numeral of_int_power)
  then have ky: "2 ^ nat (k - 1) < y" using my(1) by simp
  have xpos: "0 < \<bar>x\<bar>" using assms by simp
  have lo: "1 / 2 ^ nat k \<le> \<bar>x\<bar>"
  proof -
    have "1 / 2 ^ nat k \<le> 1 / y" using yk y1 by (intro divide_left_mono) simp_all
    then show ?thesis by (simp add: y_def)
  qed
  have hi: "\<bar>x\<bar> < 1 / 2 ^ nat (k - 1)"
  proof -
    have "1 / y < 1 / 2 ^ nat (k - 1)"
      using ky y1 by (intro divide_strict_left_mono) (simp_all add: mult_pos_pos)
    then show ?thesis by (simp add: y_def)
  qed
  have p1: "pow2 (- k) = 1 / 2 ^ nat k" using k1 by (simp add: pow2_def)
  have p2: "pow2 (- k + 1) = 1 / 2 ^ nat (k - 1)"
  proof (cases "k = 1")
    case True
    then show ?thesis by (simp add: pow2_def)
  next
    case False
    then have "\<not> 0 \<le> - k + 1" using k1 by simp
    moreover have "nat (- (- k + 1)) = nat (k - 1)" by simp
    ultimately show ?thesis by (simp add: pow2_def)
  qed
  have lo': "2 powr of_int (- k) \<le> \<bar>x\<bar>"
    unfolding pow2_powr [symmetric] p1 by (rule lo)
  have hi': "\<bar>x\<bar> < 2 powr of_int (- k + 1)"
    unfolding pow2_powr [symmetric] p2 by (rule hi)
  have "\<lfloor>log 2 \<bar>x\<bar>\<rfloor> = - k"
    using xpos lo' hi' by (rule floor_log2_eqI)
  then show ?thesis using False by (simp add: float_exponent_def k_def m_def y_def)
qed

lemma double_round_log:
  "double_round x =
     (if x = 0 then 0
      else
        let e = \<lfloor>log 2 \<bar>x\<bar>\<rfloor>;
            ulp = 2 powr of_int (e - 52)
        in of_int (round_half_even (x / ulp)) * ulp)"
  by (simp add: double_round_def float_exponent_log pow2_powr Let_def)

lemma round_half_even_error: "\<bar>of_int (round_half_even y) - y\<bar> \<le> 1 / 2"
proof -
  define f where "f = \<lfloor>y\<rfloor>"
  have b: "of_int f \<le> y" "y < of_int f + 1" unfolding f_def by linarith+
  consider "y - of_int f < 1 / 2" | "1 / 2 < y - of_int f" | "y - of_int f = 1 / 2" by linarith
  then show ?thesis
  proof cases
    case 1
    then have "round_half_even y = f" by (simp add: round_half_even_def f_def)
    then show ?thesis using 1 b by simp
  next
    case 2
    then have "round_half_even y = f + 1" by (simp add: round_half_even_def f_def Let_def)
    then show ?thesis using 2 b by simp
  next
    case 3
    then have "round_half_even y = f \<or> round_half_even y = f + 1"
      by (simp add: round_half_even_def f_def Let_def)
    then show ?thesis using 3 b by auto
  qed
qed

lemma round_half_even_of_int: "round_half_even (of_int n) = n"
  by (simp add: round_half_even_def)

lemma two_powr_floor_log_le:
  assumes "0 < a"
  shows "2 powr of_int \<lfloor>log 2 a\<rfloor> \<le> a"
proof -
  have "of_int \<lfloor>log 2 a\<rfloor> \<le> log 2 a" by simp
  then have "2 powr of_int \<lfloor>log 2 a\<rfloor> \<le> 2 powr log 2 a" by simp
  then show ?thesis using assms by simp
qed

lemma double_round_error: "\<bar>double_round x - x\<bar> \<le> \<bar>x\<bar> / 2 ^ 53"
proof (cases "x = 0")
  case True
  then show ?thesis by (simp add: double_round_log)
next
  case False
  define e where "e = \<lfloor>log 2 \<bar>x\<bar>\<rfloor>"
  define ulp :: real where "ulp = 2 powr of_int (e - 52)"
  have ulp_pos: "0 < ulp" by (simp add: ulp_def)
  have dr: "double_round x = of_int (round_half_even (x / ulp)) * ulp"
    using False by (simp add: double_round_log Let_def e_def ulp_def)
  have "\<bar>double_round x - x\<bar> = \<bar>of_int (round_half_even (x / ulp)) - x / ulp\<bar> * ulp"
  proof -
    have "double_round x - x = (of_int (round_half_even (x / ulp)) - x / ulp) * ulp"
      using ulp_pos by (simp add: dr field_simps)
    then show ?thesis using ulp_pos by (simp add: abs_mult)
  qed
  also have "\<dots> \<le> (1 / 2) * ulp"
    using round_half_even_error [of "x / ulp"] ulp_pos by (intro mult_right_mono) simp_all
  also have "(1 / 2) * ulp = 2 powr of_int e / 2 ^ 53"
  proof -
    have "ulp = 2 powr of_int e * 2 powr (- 52)"
      by (simp add: ulp_def powr_add [symmetric])
    moreover have "(2::real) powr (- 52) = 1 / 2 ^ 52"
      by (simp add: powr_minus_divide powr_realpow [symmetric])
    ultimately show ?thesis by simp
  qed
  also have "\<dots> \<le> \<bar>x\<bar> / 2 ^ 53"
    using two_powr_floor_log_le [of "\<bar>x\<bar>"] False
    by (simp add: e_def divide_right_mono)
  finally show ?thesis .
qed

lemma double_round_zero [simp]: "double_round 0 = 0"
  by (simp add: double_round_log)

lemma double_round_nonneg: "0 \<le> x \<Longrightarrow> 0 \<le> double_round x"
  using double_round_error [of x] by (simp add: abs_if field_simps split: if_splits)

lemma double_round_nonpos: "x \<le> 0 \<Longrightarrow> double_round x \<le> 0"
  using double_round_error [of x] by (simp add: abs_if field_simps split: if_splits)

lemma double_round_pos: "0 < x \<Longrightarrow> 0 < double_round x"
  using double_round_error [of x] by (simp add: abs_if field_simps split: if_splits)

lemma double_round_eval:
  assumes "x \<noteq> 0" and "2 powr of_int e \<le> \<bar>x\<bar>" and "\<bar>x\<bar> < 2 powr of_int (e + 1)"
  shows "double_round x
     = of_int (round_half_even (x / 2 powr of_int (e - 52))) * 2 powr of_int (e - 52)"
proof -
  have "\<lfloor>log 2 \<bar>x\<bar>\<rfloor> = e" using assms by (intro floor_log2_eqI) simp_all
  then show ?thesis using assms(1) by (simp add: double_round_log Let_def)
qed

lemma double_round_of_int:
  assumes "\<bar>n\<bar> < 2 ^ 53"
  shows "double_round (of_int n) = of_int n"
proof (cases "n = 0")
  case True
  then show ?thesis by simp
next
  case False
  define a :: real where "a = \<bar>of_int n\<bar>"
  define e where "e = \<lfloor>log 2 a\<rfloor>"
  have "1 \<le> \<bar>n\<bar>" using False by simp
  then have a1: "1 \<le> a" unfolding a_def by (metis of_int_1_le_iff of_int_abs)
  have a2: "a < 2 ^ 53" using assms unfolding a_def
    by (metis of_int_abs of_int_less_iff of_int_numeral of_int_power)
  have "0 \<le> log 2 a" using a1 by simp
  then have e0: "0 \<le> e" by (simp add: e_def)
  have "log 2 a < log 2 (2 ^ 53)" using a1 a2 by (subst log_less_cancel_iff) simp_all
  moreover have "log 2 (2 ^ 53) = (53::real)" using log_nat_power [of 2 2 53] by simp
  ultimately have "log 2 a < 53" by (simp only:)
  then have e1: "e \<le> 52" unfolding e_def by linarith
  define k where "k = nat (52 - e)"
  have ulp: "2 powr of_int (e - 52) = 1 / (2::real) ^ k"
  proof -
    have "of_int (e - 52) = - real k" using e1 by (simp add: k_def)
    then show ?thesis by (simp add: powr_minus_divide powr_realpow)
  qed
  have q: "of_int n / (1 / (2::real) ^ k) = (of_int (n * 2 ^ k) :: real)"
    by simp
  have "double_round (of_int n) = of_int (round_half_even (of_int n / 2 powr of_int (e - 52)))
      * 2 powr of_int (e - 52)"
    using False by (simp add: double_round_log Let_def e_def a_def)
  also have "\<dots> = of_int (n * 2 ^ k) * (1 / 2 ^ k)"
    by (simp only: ulp q round_half_even_of_int)
  also have "\<dots> = of_int n" by simp
  finally show ?thesis .
qed

lemma double_round_eval_nat:
  assumes "x \<noteq> 0" and "2 ^ n \<le> \<bar>x\<bar>" and "\<bar>x\<bar> < 2 ^ Suc n" and "n \<le> 52"
  shows "double_round x = of_int (round_half_even (x * 2 ^ (52 - n))) / 2 ^ (52 - n)"
proof -
  have p: "(2::real) powr real k = 2 ^ k" for k by (rule powr_realpow) simp
  have lo: "2 powr of_int (int n) \<le> \<bar>x\<bar>"
    using assms(2) p [of n] by simp
  have "real_of_int (int n + 1) = real (Suc n)" by simp
  then have hi: "\<bar>x\<bar> < 2 powr of_int (int n + 1)"
    using assms(3) p [of "Suc n"] by (simp only:)
  have "real_of_int (int n - 52) = - real (52 - n)" using assms(4) by simp
  then have "(2::real) powr of_int (int n - 52) = 2 powr (- real (52 - n))" by (simp only:)
  also have "\<dots> = 1 / 2 powr real (52 - n)" by (rule powr_minus_divide)
  also have "\<dots> = 1 / 2 ^ (52 - n)" by (simp only: p)
  finally have ulp: "(2::real) powr of_int (int n - 52) = 1 / 2 ^ (52 - n)" .
  have "double_round x = of_int (round_half_even (x / (1 / 2 ^ (52 - n)))) * (1 / 2 ^ (52 - n))"
    using double_round_eval [OF assms(1) lo hi] by (simp only: ulp)
  then show ?thesis by simp
qed

lemma double_round_scale: "double_round (x / 2 ^ k) = double_round x / 2 ^ k"
proof (cases "x = 0")
  case True
  then show ?thesis by simp
next
  case False
  have l: "log 2 \<bar>x / 2 ^ k\<bar> = log 2 \<bar>x\<bar> - of_int (int k)"
    using False by (simp add: log_divide abs_divide log_nat_power)
  have e: "\<lfloor>log 2 \<bar>x / 2 ^ k\<bar>\<rfloor> = \<lfloor>log 2 \<bar>x\<bar>\<rfloor> - int k"
    unfolding l by (rule floor_diff_of_int)
  have p: "(2::real) powr of_int (\<lfloor>log 2 \<bar>x\<bar>\<rfloor> - int k - 52)
      = 2 powr of_int (\<lfloor>log 2 \<bar>x\<bar>\<rfloor> - 52) / 2 ^ k"
  proof -
    have a: "of_int (\<lfloor>log 2 \<bar>x\<bar>\<rfloor> - int k - 52) = (of_int (\<lfloor>log 2 \<bar>x\<bar>\<rfloor> - 52) :: real) - of_nat k"
      by simp
    have b: "(2::real) powr of_nat k = 2 ^ k"
      by (simp add: powr_realpow)
    show ?thesis
      unfolding a by (simp only: powr_diff b)
  qed
  have nz: "x / 2 ^ k \<noteq> 0" using False by simp
  show ?thesis
    using False nz
    unfolding double_round_log Let_def e p
    by simp
qed

lemma double_round_dyadic:
  "\<bar>n\<bar> < 2 ^ 53 \<Longrightarrow> double_round (of_int n / 2 ^ k) = of_int n / 2 ^ k"
  by (simp only: double_round_scale double_round_of_int)

lemma double_round_eval_frac:
  assumes "x \<noteq> 0" and "1 \<le> \<bar>x\<bar> * 2 ^ k" and "\<bar>x\<bar> * 2 ^ k < 2"
  shows "double_round x = of_int (round_half_even (x * 2 ^ (52 + k))) / 2 ^ (52 + k)"
proof -
  have x: "x = x * 2 ^ k / 2 ^ k" by simp
  have "double_round (x * 2 ^ k) = of_int (round_half_even (x * 2 ^ k * 2 ^ (52 - 0))) / 2 ^ (52 - 0)"
    using assms by (intro double_round_eval_nat) (simp_all add: abs_mult)
  then have "double_round (x * 2 ^ k / 2 ^ k)
      = of_int (round_half_even (x * 2 ^ k * 2 ^ 52)) / 2 ^ 52 / 2 ^ k"
    by (simp only: double_round_scale diff_zero)
  then show ?thesis
    using x by (simp add: power_add mult.assoc mult.commute)
qed

section \<open>Position sizing\<close>

lemma fdiv_zero [simp]: "fdiv 0 x = 0"
  by (simp add: fdiv_def)

lemma sum_pnl_Nil [simp]: "sum_pnl [] = Inr 0"
  by (simp add: sum_pnl_def)

lemma default_limit_pos: "0 < DAILY_LOSS_LIMIT_PCT default_config"
  by (simp add: default_config_def double_round_pos)

lemma py_int_nonneg: "0 \<le> x \<Longrightarrow> py_int x = \<lfloor>x\<rfloor>"
  by (simp add: py_int_def)

lemma py_int_nonpos: "x \<le> 0 \<Longrightarrow> py_int x \<le> 0"
  by (auto simp add: py_int_def ceiling_le_zero)

lemma fmul_nonneg: "0 \<le> a \<Longrightarrow> 0 \<le> b \<Longrightarrow> 0 \<le> fmul a b"
  by (simp add: fmul_def double_round_nonneg)

lemma fdiv_nonneg: "0 \<le> a \<Longrightarrow> 0 < b \<Longrightarrow> 0 \<le> fdiv a b"
  by (simp add: fdiv_def double_round_nonneg)

lemma fdiv_nonpos: "0 \<le> a \<Longrightarrow> b < 0 \<Longrightarrow> fdiv a b \<le> 0"
  by (simp add: fdiv_def double_round_nonpos divide_nonneg_neg)

lemma example_balance_value: "example_balance = 5429652300748554 / 2 ^ 42"
proof -
  have "round_half_even (1234.56 * 2 ^ (52 - 10)) = 5429652300748554"
    by (simp add: round_half_even_def Let_def)
  then show ?thesis
    unfolding example_balance_def
    using double_round_eval_nat [of "1234.56" 10] by simp
qed

lemma example_price_value: "example_price = 6787065375935693 / 2 ^ 46"
proof -
  have "round_half_even (96.45 * 2 ^ (52 - 6)) = 6787065375935693"
    by (simp add: round_half_even_def Let_def)
  then show ?thesis
    unfolding example_price_def
    using double_round_eval_nat [of "96.45" 6] by simp
qed

lemma example_half: "fmul (5429652300748554 / 2 ^ 42) (1 / 2) = 5429652300748554 / 2 ^ 43"
proof -
  let ?x = "5429652300748554 / 2 ^ 42 * (1 / 2) :: real"
  have "round_half_even (?x * 2 ^ (52 - 9)) = 5429652300748554"
    by (simp add: round_half_even_def Let_def)
  then show ?thesis
    unfolding fmul_def
    using double_round_eval_nat [of ?x 9] by simp
qed

lemma example_capital: "fmul (5429652300748554 / 2 ^ 43) 5 = 6787065375935692 / 2 ^ 41"
proof -
  let ?x = "5429652300748554 / 2 ^ 43 * 5 :: real"
  have "round_half_even (?x * 2 ^ (52 - 11)) = 6787065375935692"
    by (simp add: round_half_even_def Let_def)
  then show ?thesis
    unfolding fmul_def
    using double_round_eval_nat [of ?x 11] by simp
qed

lemma example_quotient:
  "fdiv (6787065375935692 / 2 ^ 41) (6787065375935693 / 2 ^ 46) = 9007199254740991 / 2 ^ 48"
proof -
  let ?x = "6787065375935692 / 2 ^ 41 / (6787065375935693 / 2 ^ 46) :: real"
  have "round_half_even (?x * 2 ^ (52 - 4)) = 9007199254740991"
    by (simp add: round_half_even_def Let_def)
  then show ?thesis
    unfolding fdiv_def
    using double_round_eval_nat [of ?x 4] by simp
qed

lemma sizing_rounds_below_exact_quotient:
  "calculate_dynamic_quantity default_config example_balance example_price = 31
   \<and> \<lfloor>1234.56 * 0.5 * 5 / 96.45 :: real\<rfloor> = 32"
proof -
  have c: "MARGIN_UTILIZATION default_config = 1 / 2" "LEVERAGE default_config = 5"
    "USE_LEVERAGE_IN_SIZING default_config"
    by (simp_all add: default_config_def)
  have pos: "\<not> example_balance \<le> 0" "example_price \<noteq> 0"
    by (simp_all add: example_balance_value example_price_value)
  have q: "fdiv (fmul (fmul example_balance (1 / 2)) 5) example_price = 9007199254740991 / 2 ^ 48"
    by (simp only: example_balance_value example_price_value example_half example_capital
        example_quotient)
  have "calculate_dynamic_quantity default_config example_balance example_price
      = (let quantity = py_int (9007199254740991 / 2 ^ 48) in if quantity < 1 then 0 else quantity)"
    unfolding calculate_dynamic_quantity_def Let_def using pos q by (simp only: c if_False if_True)
  also have "\<dots> = 31" by (simp add: py_int_def Let_def)
  finally show ?thesis by simp
qed

lemma negative_utilization_quantity:
  "calculate_dynamic_quantity negative_sizing_config 100 (- 10) = 25"
proof -
  have a: "fmul 100 (- (1 / 2)) = - 50"
    using double_round_of_int [of "- 50"] by (simp add: fmul_def)
  have b: "fmul (- 50) 5 = - 250"
    using double_round_of_int [of "- 250"] by (simp add: fmul_def)
  have c: "fdiv (- 250) (- 10) = 25"
    using double_round_of_int [of 25] by (simp add: fdiv_def)
  show ?thesis
    by (simp add: calculate_dynamic_quantity_def negative_sizing_config_def default_config_def
        a b c py_int_def Let_def)
qed

text \<open>
  Claim C7, as stated, at two inputs. For every utilization the quantity is to be 0
  when the price is not positive: balance 100, utilization -0.5, leverage 5 and price
  -10 give the quantity 25. The quantity is to be the floor of the quotient: for the
  balance 1234.56 and the price 96.45 the quotient 1234.56 * 0.5 * 5 / 96.45 is 32, and
  the function, which rounds the two products and the quotient to doubles, returns 31.
\<close>

theorem sizing_differs_from_stated_floor:
  "calculate_dynamic_quantity negative_sizing_config 100 (- 10) = 25
   \<and> calculate_dynamic_quantity default_config example_balance example_price = 31
   \<and> \<lfloor>1234.56 * 0.5 * 5 / 96.45 :: real\<rfloor> = 32"
  using negative_utilization_quantity sizing_rounds_below_exact_quotient by simp

text \<open>
  Claim C7, amended. For a utilization and a leverage that are not negative, the
  quantity is the floor of balance times utilization times leverage factor over price
  as the float arithmetic computes it, the leverage factor being 1 when leverage is not
  used in sizing; the result is 0 when the balance or the price is not positive or the
  floor is below 1. With balance 50000, price 1500, utilization 0.5 and leverage 5 the
  quantity is 83.
\<close>

theorem calculate_dynamic_quantity_floor:
  assumes util: "0 \<le> MARGIN_UTILIZATION cfg" and lev: "0 \<le> LEVERAGE cfg"
  shows "calculate_dynamic_quantity cfg balance price =
     (let leverage_factor = (if USE_LEVERAGE_IN_SIZING cfg then LEVERAGE cfg else 1);
          q = \<lfloor>fdiv (fmul (fmul balance (MARGIN_UTILIZATION cfg)) leverage_factor) price\<rfloor>
      in if balance \<le> 0 \<or> price \<le> 0 \<or> q < 1 then 0 else q)"
proof -
  define lf where "lf = (if USE_LEVERAGE_IN_SIZING cfg then LEVERAGE cfg else 1)"
  define cap where "cap = fmul (fmul balance (MARGIN_UTILIZATION cfg)) lf"
  have lf0: "0 \<le> lf" using lev by (simp add: lf_def)
  have unfold: "calculate_dynamic_quantity cfg balance price =
      (if balance \<le> 0 then 0 else if price = 0 then 0
       else if py_int (fdiv cap price) < 1 then 0 else py_int (fdiv cap price))"
    by (simp add: calculate_dynamic_quantity_def Let_def cap_def lf_def)
  have main: "calculate_dynamic_quantity cfg balance price =
      (if balance \<le> 0 \<or> price \<le> 0 \<or> \<lfloor>fdiv cap price\<rfloor> < 1 then 0 else \<lfloor>fdiv cap price\<rfloor>)"
  proof (cases "balance \<le> 0")
    case True
    then show ?thesis unfolding unfold by simp
  next
    case pos: False
    then have cap0: "0 \<le> cap" using util lf0 by (simp add: cap_def fmul_nonneg)
    show ?thesis
    proof (cases "price = 0")
      case True
      then show ?thesis unfolding unfold by simp
    next
      case nz: False
      show ?thesis
      proof (cases "price < 0")
        case True
        then have "fdiv cap price \<le> 0" using cap0 by (simp add: fdiv_nonpos)
        then have "py_int (fdiv cap price) \<le> 0" by (rule py_int_nonpos)
        then show ?thesis unfolding unfold using True pos by simp
      next
        case False
        then have "0 \<le> fdiv cap price" using cap0 nz by (simp add: fdiv_nonneg)
        then have "py_int (fdiv cap price) = \<lfloor>fdiv cap price\<rfloor>" by (rule py_int_nonneg)
        then show ?thesis unfolding unfold using False nz pos by simp
      qed
    qed
  qed
  show ?thesis unfolding main cap_def lf_def Let_def by (rule refl)
qed

lemma example_sizing_quotient: "\<lfloor>fdiv (fmul (fmul 50000 (1 / 2)) 5) 1500\<rfloor> = 83"
proof -
  have a: "fmul 50000 (1 / 2) = 25000"
    using double_round_of_int [of 25000] by (simp add: fmul_def)
  have b: "fmul 25000 5 = 125000"
    using double_round_of_int [of 125000] by (simp add: fmul_def)
  have "\<bar>double_round (250 / 3) - 250 / 3\<bar> \<le> \<bar>250 / 3\<bar> / 2 ^ 53"
    by (rule double_round_error)
  then have "83 \<le> double_round (250 / 3) \<and> double_round (250 / 3) < 84"
    by (simp add: abs_if split: if_splits)
  then have "\<lfloor>double_round (250 / 3)\<rfloor> = 83" by linarith
  then show ?thesis by (simp add: a b fdiv_def)
qed

theorem calculate_dynamic_quantity_floor_witness:
  "0 \<le> MARGIN_UTILIZATION default_config \<and> 0 \<le> LEVERAGE default_config
   \<and> calculate_dynamic_quantity default_config 50000 1500 = 83
   \<and> calculate_dynamic_quantity default_config 50000 0 = 0
   \<and> calculate_dynamic_quantity default_config 0 1500 = 0"
proof -
  have c: "0 \<le> MARGIN_UTILIZATION default_config" "0 \<le> LEVERAGE default_config"
    by (simp_all add: default_config_def)
  have q: "\<lfloor>fdiv (fmul (fmul 50000 (1 / 2)) 5) 1500\<rfloor> = 83" by (rule example_sizing_quotient)
  then have nl: "\<not> fdiv (fmul (fmul 50000 (1 / 2)) 5) 1500 < 1" by linarith
  have "calculate_dynamic_quantity default_config 50000 1500 = 83"
    using calculate_dynamic_quantity_floor [OF c, of 50000 1500] q nl
    by (simp add: default_config_def)
  moreover have "calculate_dynamic_quantity default_config 50000 0 = 0"
    using calculate_dynamic_quantity_floor [OF c, of 50000 0] by simp
  moreover have "calculate_dynamic_quantity default_config 0 1500 = 0"
    using calculate_dynamic_quantity_floor [OF c, of 0 1500] by simp
  ultimately show ?thesis using c by simp
qed

section \<open>Initial stop\<close>

text \<open>
  Claim C8. With a factor from 0 up to but excluding 1 the returned stop lies at the
  distance factor times \<open>\<bar>entry - stop\<bar>\<close> from the entry, below it for a long and
  above it for a short trade; with a factor of 1 or more the stop is returned as it
  came. Entry 1500, stop 1425 and factor 0.5 give 1462.5, a risk of 37.5.
\<close>

theorem apply_stoploss_distance_factor_scales:
  "(0 \<le> STOPLOSS_DISTANCE_FACTOR cfg \<and> STOPLOSS_DISTANCE_FACTOR cfg < 1 \<longrightarrow>
      apply_stoploss_distance_factor cfg entry stop BUY
        = entry - STOPLOSS_DISTANCE_FACTOR cfg * \<bar>entry - stop\<bar>
      \<and> apply_stoploss_distance_factor cfg entry stop SELL
        = entry + STOPLOSS_DISTANCE_FACTOR cfg * \<bar>entry - stop\<bar>
      \<and> apply_stoploss_distance_factor cfg entry stop BUY \<le> entry
      \<and> entry \<le> apply_stoploss_distance_factor cfg entry stop SELL
      \<and> \<bar>entry - apply_stoploss_distance_factor cfg entry stop sd\<bar>
        = STOPLOSS_DISTANCE_FACTOR cfg * \<bar>entry - stop\<bar>)
   \<and> (STOPLOSS_DISTANCE_FACTOR cfg \<ge> 1 \<longrightarrow>
      apply_stoploss_distance_factor cfg entry stop sd = stop)"
  by (cases sd) (auto simp add: apply_stoploss_distance_factor_def Let_def abs_mult)

theorem apply_stoploss_distance_factor_scales_witness:
  "0 \<le> STOPLOSS_DISTANCE_FACTOR default_config \<and> STOPLOSS_DISTANCE_FACTOR default_config < 1
   \<and> apply_stoploss_distance_factor default_config 1500 1425 BUY = 1462.5
   \<and> \<bar>1500 - apply_stoploss_distance_factor default_config 1500 1425 BUY\<bar> = 37.5
   \<and> 1 \<le> STOPLOSS_DISTANCE_FACTOR (default_config\<lparr>STOPLOSS_DISTANCE_FACTOR := 1\<rparr>)
   \<and> apply_stoploss_distance_factor (default_config\<lparr>STOPLOSS_DISTANCE_FACTOR := 1\<rparr>) 1500 1425 BUY = 1425"
  using apply_stoploss_distance_factor_scales [of default_config 1500 1425 BUY]
    apply_stoploss_distance_factor_scales [of "default_config\<lparr>STOPLOSS_DISTANCE_FACTOR := 1\<rparr>" 1500 1425 BUY]
  by (simp add: default_config_def)

text \<open>
  Claim C6 at a failing input. The docstring of \<^verbatim>\<open>calculate_dynamic_sl\<close> promises the
  tighter (safer) of the candle level and the VWAP level. For a long entry at 100 with
  VWAP 99 and candle low 98 the candidates are 99 and 97.95; the one closer to the
  entry is 99, and the function returns 97.95.
\<close>

theorem calculate_dynamic_sl_not_tighter:
  "calculate_dynamic_sl default_config BUY 99 101 98 = 97.95
   \<and> tighter_of 100 99 (98 - DYNAMIC_SL_BUFFER default_config) = 99
   \<and> calculate_dynamic_sl default_config BUY 99 101 98
       \<noteq> tighter_of 100 99 (98 - DYNAMIC_SL_BUFFER default_config)"
  by (simp add: calculate_dynamic_sl_def default_config_def tighter_of_def)

text \<open>
  The level that \<^verbatim>\<open>calculate_dynamic_sl\<close> returns on every input: for a long entry the
  lower of VWAP and candle low minus buffer, for a short entry the higher of VWAP and
  candle high plus buffer. When both candidates lie on the losing side of the entry
  price, that is the one farther from the entry.
\<close>

theorem calculate_dynamic_sl_outer_level:
  "calculate_dynamic_sl cfg BUY vw hi lo = min vw (lo - DYNAMIC_SL_BUFFER cfg)
   \<and> calculate_dynamic_sl cfg SELL vw hi lo = max vw (hi + DYNAMIC_SL_BUFFER cfg)
   \<and> (vw \<le> entry \<and> lo - DYNAMIC_SL_BUFFER cfg \<le> entry \<longrightarrow>
        \<bar>entry - calculate_dynamic_sl cfg BUY vw hi lo\<bar>
          = max \<bar>entry - vw\<bar> \<bar>entry - (lo - DYNAMIC_SL_BUFFER cfg)\<bar>)
   \<and> (entry \<le> vw \<and> entry \<le> hi + DYNAMIC_SL_BUFFER cfg \<longrightarrow>
        \<bar>entry - calculate_dynamic_sl cfg SELL vw hi lo\<bar>
          = max \<bar>entry - vw\<bar> \<bar>entry - (hi + DYNAMIC_SL_BUFFER cfg)\<bar>)"
  by (auto simp add: calculate_dynamic_sl_def Let_def min_def max_def)

theorem calculate_dynamic_sl_outer_level_witness:
  "(99::real) \<le> 100 \<and> 98 - DYNAMIC_SL_BUFFER default_config \<le> 100
   \<and> (100::real) \<le> 101 \<and> 100 \<le> 102 + DYNAMIC_SL_BUFFER default_config
   \<and> calculate_dynamic_sl default_config BUY 99 101 98 = 97.95
   \<and> \<bar>100 - calculate_dynamic_sl default_config BUY 99 101 98\<bar> = 2.05
   \<and> calculate_dynamic_sl default_config SELL 101 102 98 = 102.05
   \<and> \<bar>100 - calculate_dynamic_sl default_config SELL 101 102 98\<bar> = 2.05"
  using calculate_dynamic_sl_outer_level [of default_config 99 101 98 100]
    calculate_dynamic_sl_outer_level [of default_config 101 102 98 100]
  by (simp add: default_config_def)

section \<open>From the signal to the monitoring loop\<close>



section \<open>The quantity invariant of the monitoring loop\<close>



lemma place_stoploss_order_update:
  "place_stoploss_order order_id m =
     m\<lparr>sl_order_id := (if truthy order_id then order_id
                        else if truthy (sl_order_id m) then None else sl_order_id m)\<rparr>"
  by (simp add: place_stoploss_order_def Let_def)

lemma close_position_cases:
  "close_position order_id qty price m =
     (if truthy order_id then (m\<lparr>exit_log := exit_log m @ [(price, qty)]\<rparr>, True) else (m, False))"
  by (simp add: close_position_def)

lemma exited_quantity_simps [simp]:
  "exited_quantity (m\<lparr>exit_log := exit_log m @ [(p, q)]\<rparr>) = exited_quantity m + q"
  "exited_quantity (m\<lparr>sl_order_id := x1\<rparr>) = exited_quantity m"
  "exited_quantity (m\<lparr>last_price := x2\<rparr>) = exited_quantity m"
  "exited_quantity (m\<lparr>sl_price := x3\<rparr>) = exited_quantity m"
  by (simp_all add: exited_quantity_def)







lemma exit_checks_Continue:
  "exit_checks cfg pos tk price m = Continue m' \<Longrightarrow> m' = m"
  by (auto simp add: exit_checks_def Let_def split: if_splits)















section \<open>The example iterations, evaluated\<close>

lemma example_position_value:
  "example_position =
     \<lparr> entry_side = BUY, entry_price = 100, quantity = 10, target_price = Some 102.5,
       second_target_price = Some 105, eod_target_price = Some 110, first_close_qty = 2,
       second_close_qty = 5, base_risk = 5 \<rparr>"
proof -
  have a: "fmul 10 (1 / 4) = 5 / 2"
    using double_round_dyadic [of 5 1] by (simp add: fmul_def)
  have b: "fmul 10 (1 / 2) = 5"
    using double_round_of_int [of 5] by (simp add: fmul_def)
  show ?thesis
    by (simp add: example_position_def open_position_def partial_close_qtys_def py_int_def
        default_config_def a b Let_def)
qed

lemma example_atr:
  "atr_trailing_update default_config example_position example_tick 110
     (example_monitor\<lparr>last_price := 110\<rparr>)
   = example_monitor\<lparr>last_price := 110, sl_price := 108.8, sl_order_id := Some 7\<rparr>"
  by (simp add: atr_trailing_update_def example_position_value example_tick_def
      example_monitor_def start_monitor_def init_bot_def bot.defs monitor.defs
      place_stoploss_order_def truthy_def default_config_def Let_def)

lemmas example_state_defs =
  example_position_value example_tick_def example_monitor_def start_monitor_def init_bot_def
  bot.defs monitor.defs truthy_def

lemma example_breakeven:
  "breakeven_move example_position example_tick 110
     (example_monitor\<lparr>last_price := 110, sl_price := 108.8, sl_order_id := Some 7\<rparr>)
   = example_monitor\<lparr>last_price := 110, sl_price := 100, sl_order_id := Some 8,
       sl_moved_to_breakeven := True\<rparr>"
  by (simp add: breakeven_move_def place_stoploss_order_def example_state_defs Let_def)




lemma example_check_daily_loss_limit:
  "check_daily_loss_limit default_config ps example_monitor = Inr (example_monitor, True)"
  using default_limit_pos
  by (simp add: check_daily_loss_limit_def example_state_defs Let_def)



section \<open>Stop price\<close>





text \<open>
  The loop as it is written, on a stop that was trailed beyond the entry price. A long
  position entered at 100 with the stop at 95 sees the price 110 with an ATR of 1: the
  trailing update raises the stop to 108.8, and in the same iteration the move to
  breakeven sets it to the entry price 100.
\<close>

lemma breakeven_move_after_trailing:
  "entry_side example_position = BUY
   \<and> sl_price (example_monitor\<lparr>last_price := 110\<rparr>) = 95
   \<and> sl_price (atr_trailing_update default_config example_position example_tick 110
        (example_monitor\<lparr>last_price := 110\<rparr>)) = 108.8
   \<and> sl_price (breakeven_move example_position example_tick 110
        (atr_trailing_update default_config example_position example_tick 110
           (example_monitor\<lparr>last_price := 110\<rparr>))) = 100"
  unfolding example_atr example_breakeven by (simp add: example_state_defs)


lemma final_close_frame:
  "sl_price (final_close sr pos order_id price q m) = sl_price m"
  "second_partial_booked (final_close sr pos order_id price q m) = second_partial_booked m"
  "trades_today (final_close sr pos order_id price q m) = trades_today m"
  "should_stop (final_close sr pos order_id price q m) = should_stop m"
  by (simp_all add: final_close_def close_position_cases Let_def)

lemma forced_close_frame:
  "sl_price (forced_close pos tk m) = sl_price m"
  "second_partial_booked (forced_close pos tk m) = second_partial_booked m"
  "trades_today (forced_close pos tk m) = trades_today m"
  "should_stop (forced_close pos tk m) = should_stop m"
  by (simp_all add: forced_close_def final_close_frame Let_def)

lemma exit_checks_frame:
  assumes "outcome_monitor (exit_checks cfg pos tk price m) = Some m'"
  shows "sl_price m' = sl_price m" "second_partial_booked m' = second_partial_booked m"
    "trades_today m' = trades_today m" "should_stop m' = should_stop m"
  using assms
  by (auto simp add: exit_checks_def final_close_frame Let_def split: if_splits)

lemma booking_frame:
  "second_partial_booked (atr_trailing_update cfg pos tk price m) = second_partial_booked m"
  "second_partial_booked (breakeven_move pos tk price m) = second_partial_booked m"
  "second_partial_booked (first_target_booking pos tk price m) = second_partial_booked m"
  "trades_today (atr_trailing_update cfg pos tk price m) = trades_today m"
  "trades_today (breakeven_move pos tk price m) = trades_today m"
  "trades_today (first_target_booking pos tk price m) = trades_today m"
  "trades_today (second_target_booking pos tk price m) = trades_today m"
  by (simp_all add: atr_trailing_update_def breakeven_move_def first_target_booking_def
      second_target_booking_def place_stoploss_order_update close_position_cases Let_def)








text \<open>
  The loop as it is written, after the second booking: the stop exit closes the rest
  at the polled price, not at the stop price. From the state above, with the stop at
  the entry price 100 and 3 shares left, a poll at 97 closes the 3 shares at 97 and
  the P&L of the trade falls from 70 to 61.
\<close>

lemma stop_exit_books_polled_price:
  "case monitor_tick default_config example_position example_gap_tick example_after of
     Exit r m \<Rightarrow> r = StopLoss \<and> exit_log m = [(110, 2), (110, 5), (97, 3)]
       \<and> t_pnl (trade m) = Some 61
   | Continue m \<Rightarrow> False
   | Raised e \<Rightarrow> False"
  using default_limit_pos
  by (simp add: monitor_tick_def check_daily_loss_limit_def price_tick_def partial_booking_def
      atr_trailing_update_def breakeven_move_def first_target_booking_def
      second_target_booking_def exit_checks_def exit_quantity_def final_close_def
      close_position_def leg_pnl_def target_touched_def current_quantity_def
      place_stoploss_order_def example_gap_tick_def example_after_def example_state_defs
      Let_def)



lemma example_stop_partial_booking:
  "partial_booking default_config example_position example_stop_tick 94
     (atr_trailing_update default_config example_position example_stop_tick 94
        (example_monitor\<lparr>last_price := 94\<rparr>))
   = example_monitor\<lparr>last_price := 94, sl_price := 100, sl_order_id := Some 8,
       sl_moved_to_breakeven := True\<rparr>"
  by (simp add: partial_booking_def atr_trailing_update_def breakeven_move_def
      first_target_booking_def second_target_booking_def target_touched_def
      current_quantity_def place_stoploss_order_def example_stop_tick_def example_state_defs
      default_config_def Let_def)

lemma example_stop_exit_checks:
  "exit_checks default_config example_position example_stop_tick 94
     (example_monitor\<lparr>last_price := 94, sl_price := 100, sl_order_id := Some 8,
       sl_moved_to_breakeven := True\<rparr>)
   = Exit StopLoss example_stopped"
  by (simp add: exit_checks_def exit_quantity_def final_close_def close_position_def leg_pnl_def
      example_stopped_def example_stop_tick_def example_state_defs default_config_def Let_def)

lemma example_stop_monitor_tick:
  "monitor_tick default_config example_position example_stop_tick example_monitor
   = Exit StopLoss example_stopped"
proof -
  have lp: "truthy (live_price example_stop_tick)" "the (live_price example_stop_tick) = 94"
    by (simp_all add: example_stop_tick_def example_tick_def truthy_def)
  have pt: "price_tick default_config example_position example_stop_tick example_monitor
      = Exit StopLoss example_stopped"
    unfolding price_tick_def Let_def
    by (simp only: lp if_True example_stop_partial_booking example_stop_exit_checks)
  show ?thesis
    by (simp add: monitor_tick_def example_check_daily_loss_limit pt)
      (simp add: example_stop_tick_def example_tick_def default_config_def)
qed

text \<open>
  The loop as it is written, at the iteration that closes the trade: the stop is hit
  at 94, all 10 shares are exited, and \<^verbatim>\<open>remaining_quantity\<close> keeps the value 10.
\<close>

lemma closing_iteration_keeps_remaining_quantity:
  "monitor_loop default_config example_position [example_stop_tick]
     (start_monitor init_bot ''TATASTEEL'' example_position 95) = Exit StopLoss example_stopped
   \<and> remaining_quantity example_stopped = Some 10
   \<and> quantity example_position - exited_quantity example_stopped = 0
   \<and> \<not> quantity_accounted example_position example_stopped"
  by (simp add: example_monitor_def [symmetric] example_stop_monitor_tick)
    (simp add: example_stopped_def example_state_defs exited_quantity_def quantity_accounted_def)

section \<open>The lists \<^verbatim>\<open>trades\<close> and \<^verbatim>\<open>trades_today\<close>\<close>

lemma trades_frame:
  "trades (atr_trailing_update cfg pos tk price m) = trades m"
  "trades (breakeven_move pos tk price m) = trades m"
  "trades (first_target_booking pos tk price m) = trades m"
  "trades (second_target_booking pos tk price m) = trades m"
  by (simp_all add: atr_trailing_update_def breakeven_move_def first_target_booking_def
      second_target_booking_def place_stoploss_order_update close_position_cases Let_def)

lemma partial_booking_frame:
  "trades (partial_booking cfg pos tk price m) = trades m"
  "trades_today (partial_booking cfg pos tk price m) = trades_today m"
  by (simp_all add: partial_booking_def trades_frame booking_frame)

lemma final_close_trades:
  "trades (final_close sr pos order_id price q m) = trades m
   \<or> trades (final_close sr pos order_id price q m)
       = trades m @ [trade (final_close sr pos order_id price q m)]"
  by (simp add: final_close_def close_position_cases Let_def)

lemma forced_close_trades:
  "trades (forced_close pos tk m) = trades m
   \<or> trades (forced_close pos tk m) = trades m @ [trade (forced_close pos tk m)]"
  by (simp add: forced_close_def Let_def final_close_trades)

lemma exit_checks_trades:
  "exit_checks cfg pos tk price m = Exit r m' \<Longrightarrow>
     r \<noteq> DailyLossLimit \<and> r \<noteq> MarketClose \<and> (trades m' = trades m \<or> trades m' = trades m @ [trade m'])"
  using final_close_trades [of True pos "final_close_order tk" price "exit_quantity pos m" m]
  by (auto simp add: exit_checks_def Let_def split: if_splits)

lemma price_tick_trades:
  "price_tick cfg pos tk m = Continue m' \<Longrightarrow> trades_today m' = trades_today m \<and> trades m' = trades m"
  "price_tick cfg pos tk m = Exit r m' \<Longrightarrow>
     r \<noteq> DailyLossLimit \<and> trades_today m' = trades_today m
     \<and> (trades m' = trades m \<or> trades m' = trades m @ [trade m'])"
proof -
  let ?p = "the (live_price tk)"
  let ?m3 = "partial_booking cfg pos tk ?p (atr_trailing_update cfg pos tk ?p (m\<lparr>last_price := ?p\<rparr>))"
  have fr: "trades ?m3 = trades m" "trades_today ?m3 = trades_today m"
    by (simp_all add: partial_booking_frame trades_frame booking_frame)
  {
    assume c: "price_tick cfg pos tk m = Continue m'"
    show "trades_today m' = trades_today m \<and> trades m' = trades m"
    proof (cases "truthy (live_price tk)")
      case False
      then show ?thesis using c by (simp add: price_tick_def)
    next
      case True
      then have "exit_checks cfg pos tk ?p ?m3 = Continue m'" using c by (simp add: price_tick_def Let_def)
      then have "m' = ?m3" by (rule exit_checks_Continue)
      then show ?thesis using fr by simp
    qed
  }
  {
    assume e: "price_tick cfg pos tk m = Exit r m'"
    show "r \<noteq> DailyLossLimit \<and> trades_today m' = trades_today m
       \<and> (trades m' = trades m \<or> trades m' = trades m @ [trade m'])"
    proof (cases "truthy (live_price tk)")
      case False
      then show ?thesis using e by (simp add: price_tick_def)
    next
      case True
      then have ex: "exit_checks cfg pos tk ?p ?m3 = Exit r m'" using e by (simp add: price_tick_def Let_def)
      then have "outcome_monitor (exit_checks cfg pos tk ?p ?m3) = Some m'" by simp
      then have "trades_today m' = trades_today ?m3" by (rule exit_checks_frame)
      then show ?thesis using exit_checks_trades [OF ex] fr by simp
    qed
  }
qed

lemma check_daily_loss_limit_empty:
  assumes "0 < DAILY_LOSS_LIMIT_PCT cfg" and "trades_today m = []"
  shows "\<exists>m'. check_daily_loss_limit cfg ps m = Inr (m', True) \<and> trades_today m' = [] \<and> trades m' = trades m
           \<and> (USE_DAILY_LOSS_LIMIT cfg \<longrightarrow> daily_pnl m' = 0)"
  using assms by (simp add: check_daily_loss_limit_def Let_def)

lemma monitor_tick_trades:
  assumes thr: "0 < DAILY_LOSS_LIMIT_PCT cfg" and empty: "trades_today m = []"
  shows "case monitor_tick cfg pos tk m of
           Continue m' \<Rightarrow> trades_today m' = [] \<and> trades m' = trades m
         | Exit r m' \<Rightarrow> r \<noteq> DailyLossLimit \<and> trades_today m' = []
             \<and> (trades m' = trades m \<or> trades m' = trades m @ [trade m'])
         | Raised e \<Rightarrow> False"
proof -
  from check_daily_loss_limit_empty [OF thr empty]
  obtain m1 where m1: "check_daily_loss_limit cfg (broker_positions tk) m = Inr (m1, True)" "trades_today m1 = []"
    "trades m1 = trades m" by blast
  have pt: "case price_tick cfg pos tk x of
           Continue m' \<Rightarrow> trades_today m' = [] \<and> trades m' = trades m
         | Exit r m' \<Rightarrow> r \<noteq> DailyLossLimit \<and> trades_today m' = []
             \<and> (trades m' = trades m \<or> trades m' = trades m @ [trade m'])
         | Raised e \<Rightarrow> False" if "trades_today x = []" "trades x = trades m" for x
  proof (cases "price_tick cfg pos tk x")
    case (Continue m')
    then show ?thesis using price_tick_trades(1) [of cfg pos tk x m'] that by simp
  next
    case (Exit r m')
    then show ?thesis using price_tick_trades(2) [of cfg pos tk x r m'] that by simp
  next
    case (Raised e)
    then show ?thesis
      by (auto simp add: price_tick_def exit_checks_def Let_def split: if_splits)
  qed
  show ?thesis
  proof (cases "now_hour tk = 15 \<and> now_minute tk \<ge> 25")
    case True
    then have "monitor_tick cfg pos tk m = Exit MarketClose (forced_close pos tk m)"
      by (simp add: monitor_tick_def)
    then show ?thesis
      using forced_close_trades [of pos tk m] empty
      by (simp add: forced_close_frame)
  next
    case False
    then have eq: "monitor_tick cfg pos tk m =
        (if USE_DAILY_LOSS_LIMIT cfg then price_tick cfg pos tk m1 else price_tick cfg pos tk m)"
      using m1(1) by (auto simp add: monitor_tick_def)
    show ?thesis
    proof (cases "USE_DAILY_LOSS_LIMIT cfg")
      case True
      then show ?thesis using pt [of m1] m1 eq by simp
    next
      case False
      then show ?thesis using pt [of m] empty eq by simp
    qed
  qed
qed

lemma monitor_loop_trades:
  assumes thr: "0 < DAILY_LOSS_LIMIT_PCT cfg"
  shows "trades_today m = [] \<Longrightarrow> trades m = ts \<Longrightarrow>
     (case monitor_loop cfg pos tks m of
        Continue m' \<Rightarrow> trades_today m' = [] \<and> trades m' = ts
      | Exit r m' \<Rightarrow> r \<noteq> DailyLossLimit \<and> trades_today m' = []
          \<and> (trades m' = ts \<or> trades m' = ts @ [trade m'])
      | Raised e \<Rightarrow> False)"
proof (induction tks arbitrary: m)
  case Nil
  then show ?case by simp
next
  case (Cons tk tks)
  note tick = monitor_tick_trades [OF thr Cons.prems(1), of pos tk]
  show ?case
  proof (cases "monitor_tick cfg pos tk m")
    case (Continue m1)
    then have "trades_today m1 = []" "trades m1 = ts"
      using tick Cons.prems(2) by simp_all
    then show ?thesis using Cons.IH [of m1] Continue by simp
  next
    case (Exit r m1)
    then show ?thesis using tick Cons.prems(2) by simp
  next
    case (Raised e)
    then show ?thesis using tick by simp
  qed
qed

lemma start_monitor_trades:
  "trades_today (start_monitor b symb pos sl) = trades_today b"
  "trades (start_monitor b symb pos sl) = trades b"
  by (simp_all add: start_monitor_def bot.defs monitor.defs)

text \<open>
  Claim C5. \<^verbatim>\<open>trades_today\<close> is empty at construction, and the monitoring loop never
  writes it: started with the list empty and a positive loss limit, the loop keeps it
  empty, the check computes a daily P&L of zero and lets the loop continue, the closed
  trade is appended to \<^verbatim>\<open>trades\<close>, and the loop never ends through the daily loss
  branch.
\<close>

theorem daily_loss_branch_unreachable:
  assumes thr: "0 < DAILY_LOSS_LIMIT_PCT cfg" and empty: "trades_today b = []"
  shows "trades_today init_bot = []
     \<and> (case monitor_loop cfg pos tks (start_monitor b symb pos sl) of
          Continue m \<Rightarrow>
            trades_today m = [] \<and> trades m = trades b
            \<and> (\<exists>m'. check_daily_loss_limit cfg ps m = Inr (m', True)
                   \<and> (USE_DAILY_LOSS_LIMIT cfg \<longrightarrow> daily_pnl m' = 0))
        | Exit r m \<Rightarrow>
            r \<noteq> DailyLossLimit \<and> trades_today m = []
            \<and> (trades m = trades b \<or> trades m = trades b @ [trade m])
        | Raised e \<Rightarrow> False)"
proof -
  let ?m0 = "start_monitor b symb pos sl"
  have e0: "trades_today ?m0 = []" using empty by (simp add: start_monitor_trades)
  have loop: "case monitor_loop cfg pos tks ?m0 of
        Continue m' \<Rightarrow> trades_today m' = [] \<and> trades m' = trades b
      | Exit r m' \<Rightarrow> r \<noteq> DailyLossLimit \<and> trades_today m' = []
          \<and> (trades m' = trades b \<or> trades m' = trades b @ [trade m'])
      | Raised e \<Rightarrow> False"
    using thr e0 by (rule monitor_loop_trades) (simp add: start_monitor_trades)
  have "trades_today init_bot = []" by (simp add: init_bot_def)
  moreover have "case monitor_loop cfg pos tks ?m0 of
          Continue m \<Rightarrow>
            trades_today m = [] \<and> trades m = trades b
            \<and> (\<exists>m'. check_daily_loss_limit cfg ps m = Inr (m', True)
                   \<and> (USE_DAILY_LOSS_LIMIT cfg \<longrightarrow> daily_pnl m' = 0))
        | Exit r m \<Rightarrow>
            r \<noteq> DailyLossLimit \<and> trades_today m = []
            \<and> (trades m = trades b \<or> trades m = trades b @ [trade m])
        | Raised e \<Rightarrow> False"
  proof (cases "monitor_loop cfg pos tks ?m0")
    case (Continue m)
    then have "trades_today m = []" "trades m = trades b"
      using loop by simp_all
    then show ?thesis
      using Continue check_daily_loss_limit_empty [OF thr, where m = m and ps = ps] by auto
  next
    case (Exit r m)
    then show ?thesis using loop by simp
  next
    case (Raised e)
    then show ?thesis using loop by simp
  qed
  ultimately show ?thesis by simp
qed

theorem daily_loss_branch_unreachable_witness:
  "0 < DAILY_LOSS_LIMIT_PCT default_config \<and> trades_today init_bot = []
   \<and> monitor_loop default_config example_position [example_stop_tick]
        (start_monitor init_bot ''TATASTEEL'' example_position 95) = Exit StopLoss example_stopped
   \<and> trades_today example_stopped = []
   \<and> trades example_stopped = trades init_bot @ [trade example_stopped]"
  using daily_loss_branch_unreachable [where cfg = default_config and b = init_bot
      and pos = example_position and tks = "[example_stop_tick]" and sl = 95
      and symb = "''TATASTEEL''"]
    default_limit_pos
  by (simp add: example_monitor_def [symmetric] example_stop_monitor_tick)
    (simp add: example_stopped_def example_state_defs)

section \<open>The daily loss check\<close>

lemma close_all_positions_sends_no_order: "fst (close_all_positions positions) = []"
  by (simp add: close_all_positions_def)



lemma example_pnl_first: "double_round (- 295.26) = - 5194268851474268 / 2 ^ 44"
proof -
  have "round_half_even (- 295.26 * 2 ^ (52 - 8)) = - 5194268851474268"
    by (simp add: round_half_even_def Let_def)
  then show ?thesis
    using double_round_eval_nat [of "- 295.26" 8] by simp
qed

lemma example_pnl_second: "double_round (- 249.56) = - 8780611898488914 / 2 ^ 45"
proof -
  have "round_half_even (- 249.56 * 2 ^ (52 - 7)) = - 8780611898488914"
    by (simp add: round_half_even_def Let_def)
  then show ?thesis
    using double_round_eval_nat [of "- 249.56" 7] by simp
qed

lemma example_pnl_third: "double_round 144.82 = 5095400765904650 / 2 ^ 45"
proof -
  have "round_half_even (144.82 * 2 ^ (52 - 7)) = 5095400765904650"
    by (simp add: round_half_even_def Let_def)
  then show ?thesis
    using double_round_eval_nat [of "144.82" 7] by simp
qed

lemma example_sum_first: "fadd 0 (- 5194268851474268 / 2 ^ 44) = - 5194268851474268 / 2 ^ 44"
  using double_round_dyadic [of "- 5194268851474268" 44] by (simp add: fadd_def)

lemma example_sum_second:
  "fadd (- 5194268851474268 / 2 ^ 44) (- 8780611898488914 / 2 ^ 45) = - 4792287400359362 / 2 ^ 43"
proof -
  let ?x = "- 5194268851474268 / 2 ^ 44 + - 8780611898488914 / 2 ^ 45 :: real"
  have "round_half_even (?x * 2 ^ (52 - 9)) = - 4792287400359362"
    by (simp add: round_half_even_def Let_def)
  then show ?thesis
    unfolding fadd_def
    using double_round_eval_nat [of ?x 9] by simp
qed

lemma example_sum_third:
  "fadd (- 4792287400359362 / 2 ^ 43) (5095400765904650 / 2 ^ 45) = - 7036874417766399 / 2 ^ 44"
proof -
  let ?x = "- 4792287400359362 / 2 ^ 43 + 5095400765904650 / 2 ^ 45 :: real"
  have "round_half_even (?x * 2 ^ (52 - 8)) = - 7036874417766399"
    by (simp add: round_half_even_def Let_def)
  then show ?thesis
    unfolding fadd_def
    using double_round_eval_nat [of ?x 8] by simp
qed

lemma example_loss_ratio: "fdiv (- 7036874417766399 / 2 ^ 44) 20000 = - 5764607523034234 / 2 ^ 58"
proof -
  let ?x = "- 7036874417766399 / 2 ^ 44 / 20000 :: real"
  have "round_half_even (?x * 2 ^ (52 + 6)) = - 5764607523034234"
    by (simp add: round_half_even_def Let_def)
  then show ?thesis
    unfolding fdiv_def
    using double_round_eval_frac [of ?x 6] by simp
qed

lemma default_limit_value: "DAILY_LOSS_LIMIT_PCT default_config = 5764607523034235 / 2 ^ 58"
proof -
  have "round_half_even (1 / 50 * 2 ^ (52 + 6)) = 5764607523034235"
    by (simp add: round_half_even_def Let_def)
  then have "double_round (1 / 50) = 5764607523034235 / 2 ^ 58"
    using double_round_eval_frac [of "1 / 50" 6] by simp
  then show ?thesis by (simp add: default_config_def)
qed

lemma sum_pnl_three:
  "sum_pnl [closed_trade_with x, closed_trade_with y, closed_trade_with z]
     = Inr (fadd (fadd (fadd 0 x) y) z)"
  by (simp add: sum_pnl_def closed_trade_with_def)

lemma rounded_sum:
  "sum_pnl (trades_today rounding_bot) = Inr (- 7036874417766399 / 2 ^ 44)"
proof -
  have "trades_today rounding_bot =
      [closed_trade_with (double_round (- 295.26)), closed_trade_with (double_round (- 249.56)),
       closed_trade_with (double_round 144.82)]"
    by (simp add: rounding_bot_def)
  then show ?thesis
    by (simp only: sum_pnl_three example_pnl_first example_pnl_second example_pnl_third example_sum_first example_sum_second example_sum_third)
qed

lemma check_daily_loss_limit_below_limit:
  assumes "USE_DAILY_LOSS_LIMIT cfg" and "sum_pnl (trades_today b) = Inr s"
    and "starting_balance b = Some sb" and "0 < sb" and "fdiv s sb = q"
    and "\<not> q \<le> - DAILY_LOSS_LIMIT_PCT cfg"
  shows "check_daily_loss_limit cfg positions b
     = Inr (b\<lparr>daily_pnl := s, daily_loss_pct := q\<rparr>, True)"
  using assms by (simp add: check_daily_loss_limit_def truthy_def Let_def)

text \<open>
  The sum and the ratio of the check are float results. Were the three closed trades of
  the day in \<^verbatim>\<open>trades_today\<close>, with a P&L of -295.26, -249.56 and 144.82 on a starting
  balance of 20000, the check would compute \<^verbatim>\<open>-399.99999999999994\<close> and the ratio
  \<^verbatim>\<open>-0.019999999999999997\<close>, above the limit \<^verbatim>\<open>-0.02\<close>, and not trip, although the
  amounts add up to -400.
\<close>

lemma rounded_sum_does_not_trip:
  "check_daily_loss_limit default_config positions rounding_bot
     = Inr (rounding_bot\<lparr>daily_pnl := - 7036874417766399 / 2 ^ 44,
                          daily_loss_pct := - 5764607523034234 / 2 ^ 58\<rparr>, True)
   \<and> (- 295.26 - 249.56 + 144.82) / 20000 \<le> (- 0.02 :: real)"
proof -
  have s: "starting_balance rounding_bot = Some 20000"
    by (simp add: rounding_bot_def)
  have u: "USE_DAILY_LOSS_LIMIT default_config" by (simp add: default_config_def)
  have c: "\<not> (- 5764607523034234 / 2 ^ 58 :: real) \<le> - DAILY_LOSS_LIMIT_PCT default_config"
    unfolding default_limit_value by simp
  have "check_daily_loss_limit default_config positions rounding_bot
     = Inr (rounding_bot\<lparr>daily_pnl := - 7036874417766399 / 2 ^ 44,
                          daily_loss_pct := - 5764607523034234 / 2 ^ 58\<rparr>, True)"
    using u rounded_sum s _ example_loss_ratio c by (rule check_daily_loss_limit_below_limit) simp
  then show ?thesis by simp
qed

section \<open>Entry search\<close>

lemmas example_entry_defs =
  example_symbol_data_def example_candle_def example_feed_def example_feeds_def
  example_retest_def example_bot_def default_config_def init_bot_def window_state_def entry_search_tick_def evaluate_symbol_def
  retest_check_def retest_ok_def breakout_filters_def check_volume_confirmation_def
  is_trend_aligned_def check_liquidity_and_spread_def is_nifty_bias_blocking_def truthy_def
  Let_def

text \<open>
  Claim C9 at a failing input. \<^verbatim>\<open>USE_VOLUME_FILTER\<close> is on, which \<^verbatim>\<open>config.py\<close> explains
  as requiring the volume confirmation before entry. With the retest entry off, in the
  primary window at 10:00, a breakout candle whose volume is not confirmed fires a
  long signal: the breakout branch tests the volume in the soft window only.
\<close>

theorem primary_breakout_fires_without_volume:
  "USE_VOLUME_FILTER no_retest_config
   \<and> \<not> check_volume_confirmation no_retest_config (weak_volume_feeds ''TATASTEEL'')
   \<and> entry_search_tick no_retest_config example_bot 1000 weak_volume_feeds
        [(''TATASTEEL'', example_symbol_data)] Map.empty
      = SignalFound ''TATASTEEL'' BUY 101 Map.empty"
  by (simp add: example_entry_defs weak_volume_feeds_def no_retest_config_def)

lemma retest_check_signal:
  "retest_check cfg b data fd cd vc st = (p, Signal sd price) \<Longrightarrow> USE_VOLUME_FILTER cfg \<longrightarrow> vc"
  by (auto simp add: retest_check_def Let_def split: if_splits)

lemma breakout_filters_signal:
  "breakout_filters cfg b fd cd vc sd trig pend = (p, Signal sd' price) \<Longrightarrow>
     \<not> USE_RETEST_ENTRY cfg \<and> (entry_window_state b = SOFT \<longrightarrow> vc)"
  by (auto simp add: breakout_filters_def Let_def split: if_splits)

lemma evaluate_symbol_signal:
  assumes "evaluate_symbol cfg b symbol data fd pend = (p, Signal sd price)"
    and "entry_window_state b = SOFT \<or> USE_RETEST_ENTRY cfg"
  shows "check_volume_confirmation cfg fd"
proof (cases "USE_VOLUME_FILTER cfg")
  case False
  then show ?thesis by (simp add: check_volume_confirmation_def)
next
  case True
  show ?thesis
    using assms True
    by (auto simp add: evaluate_symbol_def Let_def
        split: if_splits option.splits
        dest!: retest_check_signal breakout_filters_signal)
qed

lemma scan_symbols_signal:
  "scan_symbols cfg b feeds symbols pending = (p, Some (symbol, sd, price)) \<Longrightarrow>
   \<exists>data pend p1. evaluate_symbol cfg b symbol data (feeds symbol) pend = (p1, Signal sd price)"
proof (induction symbols arbitrary: pending)
  case Nil
  then show ?case by simp
next
  case (Cons a symbols)
  obtain s d where a: "a = (s, d)" by (cases a)
  obtain p1 v where ev: "evaluate_symbol cfg b s d (feeds s) (pending s) = (p1, v)"
    by (cases "evaluate_symbol cfg b s d (feeds s) (pending s)")
  show ?case
  proof (cases v)
    case (Skipped r)
    then have "scan_symbols cfg b feeds symbols (pending(s := p1)) = (p, Some (symbol, sd, price))"
      using Cons.prems a ev by simp
    then show ?thesis by (rule Cons.IH)
  next
    case (Signal sd' price')
    then have "symbol = s" "sd' = sd" "price' = price" using Cons.prems a ev by simp_all
    then show ?thesis using ev Signal by blast
  qed
qed

text \<open>
  Where the entry search does require the volume confirmation: a pass of the search
  that ends with a signal runs before 10:45, and the candle of the selected symbol has
  its volume confirmed when the pass runs in the soft window (from 10:15) or the retest
  entry is on, as \<^verbatim>\<open>config.py\<close> sets it.
\<close>

lemma signal_has_volume_in_soft_window_or_with_retest:
  assumes found: "entry_search_tick cfg b time_int feeds symbols pending
      = SignalFound symbol sd price pending1"
  shows "time_int < 1045"
    and "1015 \<le> time_int \<or> USE_RETEST_ENTRY cfg \<Longrightarrow> check_volume_confirmation cfg (feeds symbol)"
proof -
  let ?b = "b\<lparr>entry_window_state := window_state time_int\<rparr>"
  show t: "time_int < 1045"
    using found by (auto simp add: entry_search_tick_def split: if_splits)
  have "scan_symbols cfg ?b feeds symbols pending = (pending1, Some (symbol, sd, price))"
    using found
    by (auto simp add: entry_search_tick_def split: if_splits prod.splits option.splits)
  then obtain data pnd p1 where
    ev: "evaluate_symbol cfg ?b symbol data (feeds symbol) pnd = (p1, Signal sd price)"
    using scan_symbols_signal by blast
  show "check_volume_confirmation cfg (feeds symbol)"
    if "1015 \<le> time_int \<or> USE_RETEST_ENTRY cfg"
  proof -
    have "entry_window_state ?b = SOFT \<or> USE_RETEST_ENTRY cfg"
      using that t by (auto simp add: window_state_def)
    with ev show ?thesis
      using evaluate_symbol_signal [of cfg ?b symbol data "feeds symbol" pnd p1 sd price]
      by (simp add: check_volume_confirmation_def)
  qed
qed

lemma example_retest_signal:
  "entry_search_tick default_config example_bot 1000 example_feeds
     [(''TATASTEEL'', example_symbol_data)] example_pending
   = SignalFound ''TATASTEEL'' BUY 101 Map.empty"
  by (simp add: example_entry_defs example_pending_def)

text \<open>
  Claim C10. For a symbol with a pending retest record, a candle whose time stamp
  equals the record's last seen time stamp leaves the record as it is (the wait counter
  included) and gives no signal: the scan goes on as if the symbol were not there.
\<close>

theorem seen_candle_leaves_retest_pending:
  assumes retest: "USE_RETEST_ENTRY cfg"
    and pend: "pending symbol = Some st"
    and cd: "candle (feeds symbol) = Some cd"
    and seen: "candle_time cd = last_candle_time st"
  shows "(\<exists>r. evaluate_symbol cfg b symbol data (feeds symbol) (pending symbol) = (Some st, Skipped r))
     \<and> scan_symbols cfg b feeds ((symbol, data) # rest) pending = scan_symbols cfg b feeds rest pending
     \<and> (entry_search_tick cfg b time_int feeds [(symbol, data)] pending = SearchEnded
        \<or> entry_search_tick cfg b time_int feeds [(symbol, data)] pending = NoSignal pending)"
proof -
  have ev: "\<exists>r. evaluate_symbol cfg b' symbol data (feeds symbol) (pending symbol) = (Some st, Skipped r)"
    for b' :: "'a bot_scheme"
    using assms by (simp add: evaluate_symbol_def retest_check_def Let_def)
  have same: "pending(symbol := Some st) = pending"
    using pend by (simp add: fun_upd_idem)
  have scan: "scan_symbols cfg b' feeds ((symbol, data) # rest') pending
      = scan_symbols cfg b' feeds rest' pending" for b' :: "'a bot_scheme" and rest'
  proof -
    from ev [of b'] obtain r where
      "evaluate_symbol cfg b' symbol data (feeds symbol) (pending symbol) = (Some st, Skipped r)" ..
    then show ?thesis by (simp add: same)
  qed
  have "entry_search_tick cfg b time_int feeds [(symbol, data)] pending = SearchEnded
        \<or> entry_search_tick cfg b time_int feeds [(symbol, data)] pending = NoSignal pending"
  proof -
    have "scan_symbols cfg (b\<lparr>entry_window_state := window_state time_int\<rparr>) feeds
        [(symbol, data)] pending = (pending, None)"
      using scan [of "b\<lparr>entry_window_state := window_state time_int\<rparr>" "[]"] by simp
    then show ?thesis by (simp add: entry_search_tick_def del: scan_symbols.simps)
  qed
  then show ?thesis using ev [of b] scan [of b rest] by simp
qed

theorem seen_candle_leaves_retest_pending_witness:
  "USE_RETEST_ENTRY default_config
   \<and> seen_pending ''TATASTEEL'' = Some (example_retest\<lparr>last_candle_time := Some 2\<rparr>)
   \<and> candle (example_feeds ''TATASTEEL'') = Some example_candle
   \<and> candle_time example_candle = last_candle_time (example_retest\<lparr>last_candle_time := Some 2\<rparr>)
   \<and> entry_search_tick default_config example_bot 1000 example_feeds
        [(''TATASTEEL'', example_symbol_data)] seen_pending = NoSignal seen_pending"
  using seen_candle_leaves_retest_pending [of default_config seen_pending "''TATASTEEL''"
      "example_retest\<lparr>last_candle_time := Some 2\<rparr>" example_feeds example_candle example_bot
      example_symbol_data "[]" 1000]
  by (simp add: example_entry_defs seen_pending_def)

end
